theory Spec2Isabelle
  imports Main "HOL-Library.Multiset" "HOL-Library.Product_Lexorder"
begin

section \<open>Storage: the three tables read and written by \<^verbatim>\<open>main.py\<close>\<close>

text \<open>
  The service keeps its data in a relational store. A table is the list of its rows; a
  nullable column is an \<open>option\<close>. The columns are the ones the SQL text of
  \<^verbatim>\<open>main.py\<close> names; the prefixes \<open>l_\<close>, \<open>re_\<close>, \<open>i_\<close> are the table aliases
  of that SQL. A Python \<^verbatim>\<open>str\<close> is a \<open>string\<close>, one \<open>char\<close> per code point
  (code points below 256).

  Modelled from the spec: the \<^verbatim>\<open>CREATE TABLE\<close> statements are not in the source. The
  nullable columns are the attributes the spec calls optional (practice name, procedure
  name, notes, the role-entry reference of an item, title, mei, maker); identifiers are
  generated by the store and \<open>created_at\<close> is the creation timestamp the store sets.
  A date is kept as its year, month and day, and a timestamp as its text: the handlers
  only pass them through \<^verbatim>\<open>str\<close>.
\<close>

record date =
  d_year :: int
  d_month :: int
  d_day :: int

type_synonym timestamp = string

record lesson_row =
  l_id :: int
  l_user_id :: int
  l_practiced_on :: date
  l_practice_name :: "string option"

record role_entry_row =
  re_id :: int
  re_lesson_id :: int
  re_role :: string
  re_temae_name :: "string option"
  re_note :: "string option"
  re_created_at :: timestamp

record item_row =
  i_id :: int
  i_lesson_id :: int
  i_role_entry_id :: "int option"
  i_section :: string
  i_item_type :: string
  i_title :: "string option"
  i_mei :: "string option"
  i_maker :: "string option"
  i_note :: "string option"
  i_search_text :: string
  i_created_at :: timestamp

text \<open>
  The state of the store. \<open>db_now\<close> is the backend's clock, the value a row's
  \<open>created_at\<close> column takes when an INSERT does not give one.
\<close>

record db =
  lessons :: "lesson_row list"
  role_entries :: "role_entry_row list"
  lesson_items :: "item_row list"
  db_now :: timestamp

text \<open>
  What a handler raises: \<^verbatim>\<open>HTTPException(status_code, detail)\<close>, or the framework's
  rejection of a request whose parameters or body fail the declared types
  (\<^verbatim>\<open>Query(ge=1, le=200)\<close>, \<^verbatim>\<open>Literal[...]\<close>).
\<close>

datatype http_error = HTTPException int string | RequestValidationError

subsection \<open>SQL building blocks\<close>

text \<open>
  \<^verbatim>\<open>ORDER BY k ASC\<close> and \<^verbatim>\<open>ORDER BY k DESC\<close>. The engine leaves the order of rows
  with equal keys open; the model fixes one.
\<close>

definition order_by_asc :: "('a \<Rightarrow> 'k::linorder) \<Rightarrow> 'a list \<Rightarrow> 'a list" where
  "order_by_asc k rows = sort_key k rows"

definition order_by_desc :: "('a \<Rightarrow> 'k::linorder) \<Rightarrow> 'a list \<Rightarrow> 'a list" where
  "order_by_desc k rows = rev (sort_key k rows)"

text \<open>\<^verbatim>\<open>.first()\<close> of a result, and \<^verbatim>\<open>LIMIT n OFFSET m\<close>.\<close>

definition first :: "'a list \<Rightarrow> 'a option" where
  "first rows = (case rows of [] \<Rightarrow> None | r # _ \<Rightarrow> Some r)"

definition limit_offset :: "int \<Rightarrow> int \<Rightarrow> 'a list \<Rightarrow> 'a list" where
  "limit_offset lim off rows = take (nat lim) (drop (nat off) rows)"

text \<open>
  AUTO_INCREMENT: the identifier of an inserted row is greater than every identifier
  in the table.
\<close>

definition next_id :: "int list \<Rightarrow> int" where
  "next_id ids = fold max ids 0 + 1"

text \<open>The order of dates, as a sort key, and \<^verbatim>\<open>YEAR(...)\<close>.\<close>

definition date_key :: "date \<Rightarrow> int \<times> int \<times> int" where
  "date_key d = (d_year d, d_month d, d_day d)"

definition YEAR :: "date \<Rightarrow> int" where
  "YEAR d = d_year d"

text \<open>
  A reference \<^verbatim>\<open>LIKE\<close>: \<open>%\<close> matches any run of characters, \<open>_\<close> any one
  character, anything else itself. The search functions below take the operator as a
  parameter, so what is proved of them holds for the engine's own \<^verbatim>\<open>LIKE\<close>
  (collation, escapes) as well.
\<close>

fun sql_like :: "string \<Rightarrow> string \<Rightarrow> bool" where
  "sql_like s [] = (s = [])"
| "sql_like [] (p # ps) = (p = CHR ''%'' \<and> sql_like [] ps)"
| "sql_like (c # cs) (p # ps) =
     (if p = CHR ''%'' then sql_like (c # cs) ps \<or> sql_like cs (p # ps)
      else if p = CHR ''_'' then sql_like cs ps
      else c = p \<and> sql_like cs ps)"

subsection \<open>Python building blocks\<close>

text \<open>\<^verbatim>\<open>x or d\<close> for an optional string: \<^verbatim>\<open>None\<close> and \<^verbatim>\<open>""\<close> are falsy.\<close>

definition str_or :: "string option \<Rightarrow> string \<Rightarrow> string" where
  "str_or x d = (case x of None \<Rightarrow> d | Some s \<Rightarrow> if s = [] then d else s)"

text \<open>\<^verbatim>\<open>str.isspace\<close> on one character, and \<^verbatim>\<open>str.strip()\<close>.\<close>

definition isspace :: "char \<Rightarrow> bool" where
  "isspace c = (of_char c \<in> {9, 10, 11, 12, 13, 28, 29, 30, 31, 32, 133, 160 :: nat})"

definition strip :: "string \<Rightarrow> string" where
  "strip s = rev (dropWhile isspace (rev (dropWhile isspace s)))"

text \<open>\<^verbatim>\<open>sep.join(parts)\<close>.\<close>

fun join :: "string \<Rightarrow> string list \<Rightarrow> string" where
  "join sep [] = []"
| "join sep [p] = p"
| "join sep (p # q # ps) = p @ sep @ join sep (q # ps)"

section \<open>\<^verbatim>\<open>GET /lessons\<close>\<close>

record lesson_summary =
  ls_id :: int
  ls_practiced_on :: date
  ls_practice_name :: "string option"
  ls_teishu_temae_name :: "string option"
  ls_kyaku_temae_name :: "string option"

text \<open>
  The scalar subquery of \<^verbatim>\<open>list_lessons\<close>:
  \<^verbatim>\<open>SELECT re.temae_name FROM role_entries re WHERE re.lesson_id = l.id AND re.role = :role
  AND re.temae_name IS NOT NULL ORDER BY re.id DESC LIMIT 1\<close>.
\<close>

definition temae_subquery :: "db \<Rightarrow> int \<Rightarrow> string \<Rightarrow> string option" where
  "temae_subquery d lid role =
     (case first (take 1 (order_by_desc re_id
                    (filter (\<lambda>re. re_lesson_id re = lid \<and> re_role re = role \<and> re_temae_name re \<noteq> None)
                       (role_entries d)))) of
        None \<Rightarrow> None
      | Some re \<Rightarrow> re_temae_name re)"

definition list_lessons_rows :: "db \<Rightarrow> lesson_row list" where
  "list_lessons_rows d =
     take 200 (order_by_desc (\<lambda>l. (date_key (l_practiced_on l), l_id l))
                 (filter (\<lambda>l. l_user_id l = 1) (lessons d)))"

definition list_lessons :: "db \<Rightarrow> lesson_summary list" where
  "list_lessons d =
     map (\<lambda>l. \<lparr> ls_id = l_id l,
                ls_practiced_on = l_practiced_on l,
                ls_practice_name = l_practice_name l,
                ls_teishu_temae_name = temae_subquery d (l_id l) ''teishu'',
                ls_kyaku_temae_name = temae_subquery d (l_id l) ''kyaku'' \<rparr>)
         (list_lessons_rows d)"

section \<open>\<^verbatim>\<open>GET /search\<close>\<close>

record search_item =
  si_item_id :: int
  si_section :: string
  si_item_type :: string
  si_title :: "string option"
  si_mei :: "string option"
  si_maker :: "string option"
  si_note :: "string option"

record search_result =
  sr_lesson_id :: int
  sr_practiced_on :: date
  sr_practice_name :: "string option"
  sr_item :: search_item

record search_filters =
  f_query :: "string option"
  f_year :: "int option"
  f_practice_name :: "string option"
  f_item_type :: "string option"
  f_section :: "string option"

record search_response =
  r_count :: nat
  r_limit :: int
  r_offset :: int
  r_filters :: search_filters
  r_results :: "search_result list"

text \<open>
  The \<^verbatim>\<open>WHERE\<close> clause of \<^verbatim>\<open>search_items\<close> on one row of the join, with the bound
  parameters \<open>year\<close>, \<open>practice_name\<close>, \<open>item_type\<close>, \<open>section\<close>, \<open>q_like\<close>
  (\<open>None\<close> is SQL's NULL). A comparison with a NULL column is unknown, and a row whose
  condition is unknown is not selected: a NULL \<open>practice_name\<close> column fails the
  \<^verbatim>\<open>LIKE\<close>.
\<close>

definition search_where ::
  "(string \<Rightarrow> string \<Rightarrow> bool) \<Rightarrow> int option \<Rightarrow> string option \<Rightarrow> string option \<Rightarrow> string option \<Rightarrow>
   string option \<Rightarrow> lesson_row \<times> item_row \<Rightarrow> bool" where
  "search_where like year practice_name item_type section q_like row =
     (case row of (l, i) \<Rightarrow>
        l_user_id l = 1
        \<and> (year = None \<or> Some (YEAR (l_practiced_on l)) = year)
        \<and> (practice_name = None \<or>
             (case l_practice_name l of
                None \<Rightarrow> False
              | Some n \<Rightarrow> like n (''%'' @ the practice_name @ ''%'')))
        \<and> (item_type = None \<or> Some (i_item_type i) = item_type)
        \<and> (section = None \<or> Some (i_section i) = section)
        \<and> (q_like = None \<or> like (i_search_text i) (the q_like)))"

text \<open>\<^verbatim>\<open>FROM lessons l JOIN lesson_items i ON i.lesson_id = l.id\<close>.\<close>

definition lessons_join_items :: "db \<Rightarrow> (lesson_row \<times> item_row) list" where
  "lessons_join_items d =
     concat (map (\<lambda>l. map (\<lambda>i. (l, i)) (filter (\<lambda>i. i_lesson_id i = l_id l) (lesson_items d)))
                 (lessons d))"

text \<open>The rows the \<^verbatim>\<open>WHERE\<close> clause selects, in the order of the \<^verbatim>\<open>ORDER BY\<close>.\<close>

definition search_matching ::
  "(string \<Rightarrow> string \<Rightarrow> bool) \<Rightarrow> db \<Rightarrow> int option \<Rightarrow> string option \<Rightarrow> string option \<Rightarrow> string option \<Rightarrow>
   string option \<Rightarrow> (lesson_row \<times> item_row) list" where
  "search_matching like d year practice_name item_type section q_like =
     order_by_desc (\<lambda>(l, i). (date_key (l_practiced_on l), i_id i))
       (filter (search_where like year practice_name item_type section q_like)
          (lessons_join_items d))"

text \<open>The normalisation of the free-text query: \<^verbatim>\<open>q = (query or "").strip()\<close>,
  \<^verbatim>\<open>q_like = f"%{q}%" if q else None\<close>.\<close>

definition q_like_of :: "string option \<Rightarrow> string option" where
  "q_like_of query =
     (let q = strip (str_or query '''')
      in if q \<noteq> [] then Some (''%'' @ q @ ''%'') else None)"

definition search_result_of :: "lesson_row \<times> item_row \<Rightarrow> search_result" where
  "search_result_of r =
     (case r of (l, i) \<Rightarrow>
        \<lparr> sr_lesson_id = l_id l,
          sr_practiced_on = l_practiced_on l,
          sr_practice_name = l_practice_name l,
          sr_item = \<lparr> si_item_id = i_id i,
                      si_section = i_section i,
                      si_item_type = i_item_type i,
                      si_title = i_title i,
                      si_mei = i_mei i,
                      si_maker = i_maker i,
                      si_note = i_note i \<rparr> \<rparr>)"

definition search_items ::
  "(string \<Rightarrow> string \<Rightarrow> bool) \<Rightarrow> db \<Rightarrow> string option \<Rightarrow> int option \<Rightarrow> string option \<Rightarrow> string option \<Rightarrow>
   string option \<Rightarrow> int \<Rightarrow> int \<Rightarrow> http_error + search_response" where
  "search_items like d query year practice_name item_type section lim off =
     (if lim < 1 \<or> 200 < lim \<or> off < 0 then Inl RequestValidationError
      else
        let q_like = q_like_of query;
            rows = limit_offset lim off
                     (search_matching like d year practice_name item_type section q_like);
            results = map search_result_of rows
        in Inr \<lparr> r_count = length results,
                 r_limit = lim,
                 r_offset = off,
                 r_filters = \<lparr> f_query = query,
                             f_year = year,
                             f_practice_name = practice_name,
                             f_item_type = item_type,
                             f_section = section \<rparr>,
                 r_results = results \<rparr>)"

section \<open>\<^verbatim>\<open>GET /lessons/{lesson_id}\<close>\<close>

record item_payload =
  ip_item_id :: int
  ip_role_entry_id :: "int option"
  ip_section :: string
  ip_item_type :: string
  ip_title :: "string option"
  ip_mei :: "string option"
  ip_maker :: "string option"
  ip_note :: "string option"
  ip_created_at :: timestamp

record entry_payload =
  ep_role_entry_id :: int
  ep_role :: string
  ep_temae_name :: "string option"
  ep_note :: "string option"
  ep_created_at :: timestamp
  ep_items :: "item_payload list"

record lesson_info =
  li_id :: int
  li_practiced_on :: date
  li_practice_name :: "string option"

record lesson_detail =
  lesson :: lesson_info
  chashitsu_tab :: "item_payload list"
  teishu_tab :: "entry_payload list"
  kyaku_tab :: "entry_payload list"

text \<open>
  \<^verbatim>\<open>entry_map\<close> is a Python dict: insertion ordered, an assignment to a key that is
  present replaces the value in place. It is an association list here;
  \<^verbatim>\<open>entry_map[k] = v\<close> is \<open>dict_set\<close>, \<^verbatim>\<open>entry_map.get(k)\<close> is \<open>map_of\<close>,
  \<^verbatim>\<open>entry_map.values()\<close> is \<open>map snd\<close>.
\<close>

fun dict_set :: "'k \<Rightarrow> 'v \<Rightarrow> ('k \<times> 'v) list \<Rightarrow> ('k \<times> 'v) list" where
  "dict_set k v [] = [(k, v)]"
| "dict_set k v ((k', v') # m) = (if k' = k then (k, v) # m else (k', v') # dict_set k v m)"

text \<open>The first loop: \<^verbatim>\<open>for e in entries: entry_map[e["id"]] = {...}\<close>.\<close>

definition entry_payload_of :: "role_entry_row \<Rightarrow> entry_payload" where
  "entry_payload_of e =
     \<lparr> ep_role_entry_id = re_id e,
       ep_role = re_role e,
       ep_temae_name = re_temae_name e,
       ep_note = re_note e,
       ep_created_at = re_created_at e,
       ep_items = [] \<rparr>"

fun build_entry_map :: "role_entry_row list \<Rightarrow> (int \<times> entry_payload) list \<Rightarrow> (int \<times> entry_payload) list" where
  "build_entry_map [] entry_map = entry_map"
| "build_entry_map (e # entries) entry_map =
     build_entry_map entries (dict_set (re_id e) (entry_payload_of e) entry_map)"

definition item_payload_of :: "item_row \<Rightarrow> item_payload" where
  "item_payload_of it =
     \<lparr> ip_item_id = i_id it,
       ip_role_entry_id = i_role_entry_id it,
       ip_section = i_section it,
       ip_item_type = i_item_type it,
       ip_title = i_title it,
       ip_mei = i_mei it,
       ip_maker = i_maker it,
       ip_note = i_note it,
       ip_created_at = i_created_at it \<rparr>"

text \<open>
  The second loop, \<^verbatim>\<open>for it in items: ...\<close>, on the state it mutates: the dict and
  \<^verbatim>\<open>chashitsu_items\<close>. \<^verbatim>\<open>entry["items"].append(item_payload)\<close> changes the dict's
  value for that key.
\<close>

fun group_items ::
  "item_row list \<Rightarrow> (int \<times> entry_payload) list \<Rightarrow> item_payload list \<Rightarrow>
   (int \<times> entry_payload) list \<times> item_payload list" where
  "group_items [] entry_map chashitsu_items = (entry_map, chashitsu_items)"
| "group_items (it # items) entry_map chashitsu_items =
     (case i_role_entry_id it of
        None \<Rightarrow> group_items items entry_map (chashitsu_items @ [item_payload_of it])
      | Some rid \<Rightarrow>
          (case map_of entry_map rid of
             None \<Rightarrow> group_items items entry_map (chashitsu_items @ [item_payload_of it])
           | Some entry \<Rightarrow>
               group_items items
                 (dict_set rid (entry\<lparr> ep_items := ep_items entry @ [item_payload_of it] \<rparr>) entry_map)
                 chashitsu_items))"

text \<open>\<^verbatim>\<open>SELECT ... FROM lessons WHERE id = :lesson_id AND user_id = :user_id LIMIT 1\<close>,
  the first query of the three handlers that take a lesson: it exists and is the caller's.\<close>

definition select_lesson :: "db \<Rightarrow> int \<Rightarrow> lesson_row option" where
  "select_lesson d lesson_id =
     first (take 1 (filter (\<lambda>l. l_id l = lesson_id \<and> l_user_id l = 1) (lessons d)))"

text \<open>\<^verbatim>\<open>entries_sql\<close>: \<^verbatim>\<open>SELECT ... FROM role_entries WHERE lesson_id = :lesson_id ORDER BY
  id ASC\<close>, and \<^verbatim>\<open>items_sql\<close>: \<^verbatim>\<open>SELECT ... FROM lesson_items WHERE lesson_id =
  :lesson_id ORDER BY id ASC\<close>.\<close>

definition select_entries :: "db \<Rightarrow> int \<Rightarrow> role_entry_row list" where
  "select_entries d lesson_id =
     order_by_asc re_id (filter (\<lambda>e. re_lesson_id e = lesson_id) (role_entries d))"

definition select_items :: "db \<Rightarrow> int \<Rightarrow> item_row list" where
  "select_items d lesson_id =
     order_by_asc i_id (filter (\<lambda>i. i_lesson_id i = lesson_id) (lesson_items d))"

definition get_lesson_detail :: "db \<Rightarrow> int \<Rightarrow> http_error + lesson_detail" where
  "get_lesson_detail d lesson_id =
     (case select_lesson d lesson_id of
        None \<Rightarrow> Inl (HTTPException 404 ''Lesson not found'')
      | Some l \<Rightarrow>
          let entries = select_entries d lesson_id;
              entry_map = build_entry_map entries [];
              items = select_items d lesson_id;
              (entry_map', chashitsu_items) = group_items items entry_map [];
              teishu_entries = filter (\<lambda>v. ep_role v = ''teishu'') (map snd entry_map');
              kyaku_entries = filter (\<lambda>v. ep_role v = ''kyaku'') (map snd entry_map')
          in Inr \<lparr> lesson = \<lparr> li_id = l_id l,
                              li_practiced_on = l_practiced_on l,
                              li_practice_name = l_practice_name l \<rparr>,
                   chashitsu_tab = chashitsu_items,
                   teishu_tab = teishu_entries,
                   kyaku_tab = kyaku_entries \<rparr>)"

text \<open>Every item of a response: the tea-room list, then the lists of all host and
  guest entries.\<close>

definition detail_items :: "lesson_detail \<Rightarrow> item_payload list" where
  "detail_items r =
     chashitsu_tab r @ concat (map ep_items (teishu_tab r)) @ concat (map ep_items (kyaku_tab r))"

text \<open>The items held by the entries of the dict, whatever their role.\<close>

definition map_items :: "(int \<times> entry_payload) list \<Rightarrow> item_payload list" where
  "map_items m = concat (map (\<lambda>kv. ep_items (snd kv)) m)"

section \<open>\<^verbatim>\<open>POST /lessons/{lesson_id}/role-entries\<close>\<close>

text \<open>
  \<^verbatim>\<open>class RoleEntryCreate\<close>. The field \<open>role\<close> is declared
  \<^verbatim>\<open>Literal["teishu", "kyaku"]\<close>: the framework rejects a body with another value
  before the handler runs.
\<close>

record RoleEntryCreate =
  rc_role :: string
  rc_temae_name :: "string option"
  rc_note :: "string option"

definition RoleEntryCreate_valid :: "RoleEntryCreate \<Rightarrow> bool" where
  "RoleEntryCreate_valid body = (rc_role body = ''teishu'' \<or> rc_role body = ''kyaku'')"

text \<open>The \<^verbatim>\<open>INSERT INTO role_entries\<close>.\<close>

definition new_role_entry_row :: "db \<Rightarrow> int \<Rightarrow> RoleEntryCreate \<Rightarrow> role_entry_row" where
  "new_role_entry_row d lesson_id body =
     \<lparr> re_id = next_id (map re_id (role_entries d)),
       re_lesson_id = lesson_id,
       re_role = rc_role body,
       re_temae_name = rc_temae_name body,
       re_note = rc_note body,
       re_created_at = db_now d \<rparr>"

definition insert_role_entry :: "db \<Rightarrow> int \<Rightarrow> RoleEntryCreate \<Rightarrow> db" where
  "insert_role_entry d lesson_id body =
     d\<lparr> role_entries := role_entries d @ [new_role_entry_row d lesson_id body] \<rparr>"

text \<open>\<^verbatim>\<open>SELECT ... FROM role_entries WHERE lesson_id=:lesson_id AND role=:role ORDER BY id
  DESC LIMIT 1\<close>.\<close>

definition select_last_role_entry :: "db \<Rightarrow> int \<Rightarrow> string \<Rightarrow> role_entry_row option" where
  "select_last_role_entry d lesson_id role =
     first (take 1 (order_by_desc re_id
              (filter (\<lambda>e. re_lesson_id e = lesson_id \<and> re_role e = role) (role_entries d))))"

definition create_role_entry ::
  "db \<Rightarrow> int \<Rightarrow> RoleEntryCreate \<Rightarrow> db \<times> (http_error + role_entry_row option)" where
  "create_role_entry d lesson_id body =
     (if \<not> RoleEntryCreate_valid body then (d, Inl RequestValidationError)
      else
        (case select_lesson d lesson_id of
           None \<Rightarrow> (d, Inl (HTTPException 404 ''Lesson not found''))
         | Some l \<Rightarrow>
             (let d' = insert_role_entry d lesson_id body;
                  new_row = select_last_role_entry d' lesson_id (rc_role body)
              in (d', Inr new_row))))"

section \<open>\<^verbatim>\<open>POST /lessons/{lesson_id}/items\<close>\<close>

text \<open>
  \<^verbatim>\<open>class ItemCreate\<close>. The field \<open>section\<close> is declared
  \<^verbatim>\<open>Optional[Literal["chashitsu", "teishu", "kyaku"]]\<close>.
\<close>

record ItemCreate =
  ic_role_entry_id :: "int option"
  ic_section :: "string option"
  ic_item_type :: string
  ic_title :: "string option"
  ic_mei :: "string option"
  ic_maker :: "string option"
  ic_note :: "string option"

definition ItemCreate_valid :: "ItemCreate \<Rightarrow> bool" where
  "ItemCreate_valid body =
     (case ic_section body of
        None \<Rightarrow> True
      | Some s \<Rightarrow> s = ''chashitsu'' \<or> s = ''teishu'' \<or> s = ''kyaku'')"

text \<open>\<^verbatim>\<open>SELECT id, role, temae_name FROM role_entries WHERE id = :role_entry_id AND
  lesson_id = :lesson_id LIMIT 1\<close>.\<close>

definition select_role_entry :: "db \<Rightarrow> int \<Rightarrow> int \<Rightarrow> role_entry_row option" where
  "select_role_entry d role_entry_id lesson_id =
     first (take 1 (filter (\<lambda>e. re_id e = role_entry_id \<and> re_lesson_id e = lesson_id)
                      (role_entries d)))"

text \<open>Step 1 of the handler, on a role entry that was found: the section inferred
  from its role.\<close>

definition infer_section :: "role_entry_row \<Rightarrow> ItemCreate \<Rightarrow> string" where
  "infer_section entry body =
     (if re_role entry = ''teishu'' then ''teishu''
      else if re_role entry = ''kyaku'' then ''kyaku''
      else str_or (ic_section body) ''chashitsu'')"

text \<open>Step 2: \<^verbatim>\<open>parts = [...]\<close> and
  \<^verbatim>\<open>search_text = " ".join([p for p in parts if p])\<close>.\<close>

definition build_search_text :: "string \<Rightarrow> string \<Rightarrow> ItemCreate \<Rightarrow> string \<Rightarrow> string" where
  "build_search_text inferred_section temae_name body practice_name =
     (let parts = [inferred_section,
                   temae_name,
                   ic_item_type body,
                   str_or (ic_title body) '''',
                   str_or (ic_mei body) '''',
                   str_or (ic_maker body) '''',
                   str_or (ic_note body) '''',
                   practice_name]
      in join '' '' (filter (\<lambda>p. p \<noteq> []) parts))"

text \<open>Step 1: the section and the procedure name, or the 400 of a role entry that is
  not one of this lesson.\<close>

definition resolve_section :: "db \<Rightarrow> int \<Rightarrow> ItemCreate \<Rightarrow> http_error + (string \<times> string)" where
  "resolve_section d lesson_id body =
     (case ic_role_entry_id body of
        Some role_entry_id \<Rightarrow>
          (case select_role_entry d role_entry_id lesson_id of
             None \<Rightarrow> Inl (HTTPException 400 ''Invalid role_entry_id for this lesson'')
           | Some entry \<Rightarrow> Inr (infer_section entry body, str_or (re_temae_name entry) ''''))
      | None \<Rightarrow> Inr (str_or (ic_section body) ''chashitsu'', ''''))"

text \<open>Step 3: the \<^verbatim>\<open>INSERT INTO lesson_items\<close>.\<close>

definition new_item_row :: "db \<Rightarrow> int \<Rightarrow> ItemCreate \<Rightarrow> string \<Rightarrow> string \<Rightarrow> item_row" where
  "new_item_row d lesson_id body inferred_section search_text =
     \<lparr> i_id = next_id (map i_id (lesson_items d)),
       i_lesson_id = lesson_id,
       i_role_entry_id = ic_role_entry_id body,
       i_section = inferred_section,
       i_item_type = ic_item_type body,
       i_title = ic_title body,
       i_mei = ic_mei body,
       i_maker = ic_maker body,
       i_note = ic_note body,
       i_search_text = search_text,
       i_created_at = db_now d \<rparr>"

definition insert_item :: "db \<Rightarrow> int \<Rightarrow> ItemCreate \<Rightarrow> string \<Rightarrow> string \<Rightarrow> db" where
  "insert_item d lesson_id body inferred_section search_text =
     d\<lparr> lesson_items :=
          lesson_items d @ [new_item_row d lesson_id body inferred_section search_text] \<rparr>"

text \<open>Step 4: \<^verbatim>\<open>SELECT ... FROM lesson_items WHERE lesson_id = :lesson_id ORDER BY id DESC
  LIMIT 1\<close>.\<close>

definition select_last_item :: "db \<Rightarrow> int \<Rightarrow> item_row option" where
  "select_last_item d lesson_id =
     first (take 1 (order_by_desc i_id (filter (\<lambda>i. i_lesson_id i = lesson_id) (lesson_items d))))"

definition add_item_to_lesson ::
  "db \<Rightarrow> int \<Rightarrow> ItemCreate \<Rightarrow> db \<times> (http_error + item_row option)" where
  "add_item_to_lesson d lesson_id body =
     (if \<not> ItemCreate_valid body then (d, Inl RequestValidationError)
      else
        (case select_lesson d lesson_id of
           None \<Rightarrow> (d, Inl (HTTPException 404 ''Lesson not found''))
         | Some lesson_row \<Rightarrow>
             (let practice_name = str_or (l_practice_name lesson_row) ''''
              in (case resolve_section d lesson_id body of
                    Inl err \<Rightarrow> (d, Inl err)
                  | Inr (inferred_section, temae_name) \<Rightarrow>
                      (let search_text =
                             build_search_text inferred_section temae_name body practice_name;
                           d' = insert_item d lesson_id body inferred_section search_text;
                           new_item = select_last_item d' lesson_id
                       in (d', Inr new_item))))))"

section \<open>The words of the specification about Add Item\<close>


text \<open>An optional text field as a string: the empty string when it is absent.\<close>

definition opt_str :: "string option \<Rightarrow> string" where
  "opt_str x = (case x of None \<Rightarrow> [] | Some s \<Rightarrow> s)"

text \<open>The procedure name of the role entry the request references: the empty string
  when there is no role entry or no name.\<close>

definition entry_temae_name :: "db \<Rightarrow> int \<Rightarrow> ItemCreate \<Rightarrow> string" where
  "entry_temae_name d lesson_id body =
     (case ic_role_entry_id body of
        None \<Rightarrow> []
      | Some rid \<Rightarrow>
          (case select_role_entry d rid lesson_id of
             None \<Rightarrow> []
           | Some e \<Rightarrow> opt_str (re_temae_name e)))"

text \<open>The practice name of the lesson.\<close>

definition lesson_practice_name :: "db \<Rightarrow> int \<Rightarrow> string" where
  "lesson_practice_name d lesson_id =
     (case select_lesson d lesson_id of None \<Rightarrow> [] | Some l \<Rightarrow> opt_str (l_practice_name l))"

text \<open>The eight values of the search text of a stored item, in their fixed order.\<close>

definition search_text_fields :: "db \<Rightarrow> int \<Rightarrow> ItemCreate \<Rightarrow> item_row \<Rightarrow> string list" where
  "search_text_fields d lesson_id body it =
     [i_section it,
      entry_temae_name d lesson_id body,
      ic_item_type body,
      opt_str (ic_title body),
      opt_str (ic_mei body),
      opt_str (ic_maker body),
      opt_str (ic_note body),
      lesson_practice_name d lesson_id]"

text \<open>The pieces of a text between single spaces, as \<^verbatim>\<open>s.split(" ")\<close> gives them: an
  empty piece stands for a leading, a trailing or a doubled space.\<close>

fun split_space :: "string \<Rightarrow> string list" where
  "split_space [] = [[]]"
| "split_space (c # cs) =
     (if c = CHR '' '' then [] # split_space cs
      else (case split_space cs of
              [] \<Rightarrow> [[c]]
            | w # ws \<Rightarrow> (c # w) # ws))"

section \<open>The words of the specification about List Lessons\<close>

text \<open>
  \<open>name\<close> is the procedure name of the most recent entry of the lesson with that role
  that has a procedure name (the one with the greatest identifier), or absent when the
  lesson has no such entry.
\<close>

definition named_entry :: "int \<Rightarrow> string \<Rightarrow> role_entry_row \<Rightarrow> bool" where
  "named_entry lesson_id role e =
     (re_lesson_id e = lesson_id \<and> re_role e = role \<and> re_temae_name e \<noteq> None)"

definition most_recent_temae :: "db \<Rightarrow> int \<Rightarrow> string \<Rightarrow> string option \<Rightarrow> bool" where
  "most_recent_temae d lesson_id role name =
     (if \<exists>e\<in>set (role_entries d). named_entry lesson_id role e
      then \<exists>e\<in>set (role_entries d).
             named_entry lesson_id role e
             \<and> (\<forall>e'\<in>set (role_entries d). named_entry lesson_id role e' \<longrightarrow> re_id e' \<le> re_id e)
             \<and> name = re_temae_name e
      else name = None)"

text \<open>An output row of List Lessons is the summary of a lesson row.\<close>

definition summary_of :: "db \<Rightarrow> lesson_row \<Rightarrow> lesson_summary \<Rightarrow> bool" where
  "summary_of d l s =
     (ls_id s = l_id l \<and> ls_practiced_on s = l_practiced_on l
      \<and> ls_practice_name s = l_practice_name l
      \<and> most_recent_temae d (l_id l) ''teishu'' (ls_teishu_temae_name s)
      \<and> most_recent_temae d (l_id l) ''kyaku'' (ls_kyaku_temae_name s))"

section \<open>Example stores\<close>

text \<open>
  A store with two lessons of the caller and one of another user. Lesson 1 has a host
  entry, a guest entry, and three items: one of the host entry, one of the tea room, and
  one whose role entry 9 does not exist.
\<close>

definition ex_lessons :: "lesson_row list" where
  "ex_lessons =
     [\<lparr> l_id = 1, l_user_id = 1,
        l_practiced_on = \<lparr> d_year = 2026, d_month = 1, d_day = 10 \<rparr>,
        l_practice_name = Some ''New Year'' \<rparr>,
      \<lparr> l_id = 2, l_user_id = 1,
        l_practiced_on = \<lparr> d_year = 2026, d_month = 2, d_day = 3 \<rparr>,
        l_practice_name = None \<rparr>,
      \<lparr> l_id = 3, l_user_id = 2,
        l_practiced_on = \<lparr> d_year = 2026, d_month = 3, d_day = 1 \<rparr>,
        l_practice_name = None \<rparr>]"

definition ex_entries :: "role_entry_row list" where
  "ex_entries =
     [\<lparr> re_id = 1, re_lesson_id = 1, re_role = ''teishu'', re_temae_name = Some ''usucha'',
        re_note = None, re_created_at = ''t1'' \<rparr>,
      \<lparr> re_id = 2, re_lesson_id = 1, re_role = ''kyaku'', re_temae_name = None,
        re_note = None, re_created_at = ''t2'' \<rparr>]"

definition ex_item_host :: item_row where
  "ex_item_host =
     \<lparr> i_id = 1, i_lesson_id = 1, i_role_entry_id = Some 1, i_section = ''teishu'',
       i_item_type = ''chawan'', i_title = None, i_mei = Some ''Yamazato'', i_maker = None,
       i_note = None, i_search_text = ''teishu usucha chawan Yamazato New Year'',
       i_created_at = ''t3'' \<rparr>"

definition ex_item_room :: item_row where
  "ex_item_room =
     \<lparr> i_id = 2, i_lesson_id = 1, i_role_entry_id = None, i_section = ''chashitsu'',
       i_item_type = ''kakejiku'', i_title = None, i_mei = None, i_maker = None,
       i_note = None, i_search_text = ''chashitsu kakejiku New Year'',
       i_created_at = ''t4'' \<rparr>"

definition ex_item_orphan :: item_row where
  "ex_item_orphan =
     \<lparr> i_id = 3, i_lesson_id = 1, i_role_entry_id = Some 9, i_section = ''kyaku'',
       i_item_type = ''natsume'', i_title = None, i_mei = None, i_maker = None,
       i_note = None, i_search_text = ''kyaku natsume New Year'',
       i_created_at = ''t5'' \<rparr>"

definition ex_db :: db where
  "ex_db =
     \<lparr> lessons = ex_lessons,
       role_entries = ex_entries,
       lesson_items = [ex_item_host, ex_item_room, ex_item_orphan],
       db_now = ''t6'' \<rparr>"

text \<open>The detail of lesson 1 of that store.\<close>

definition ex_detail :: lesson_detail where
  "ex_detail =
     \<lparr> lesson = \<lparr> li_id = 1,
                  li_practiced_on = \<lparr> d_year = 2026, d_month = 1, d_day = 10 \<rparr>,
                  li_practice_name = Some ''New Year'' \<rparr>,
       chashitsu_tab = [item_payload_of ex_item_room, item_payload_of ex_item_orphan],
       teishu_tab = [(entry_payload_of (ex_entries ! 0))\<lparr> ep_items := [item_payload_of ex_item_host] \<rparr>],
       kyaku_tab = [entry_payload_of (ex_entries ! 1)] \<rparr>"

text \<open>
  A store whose only role entry has a role that is neither \<open>teishu\<close> nor \<open>kyaku\<close>
  (such a row is not one the handlers insert), with one item of that entry.
\<close>

definition other_role_entry :: role_entry_row where
  "other_role_entry =
     \<lparr> re_id = 1, re_lesson_id = 1, re_role = ''hanto'', re_temae_name = Some ''usucha'',
       re_note = None, re_created_at = ''t1'' \<rparr>"

definition other_role_db :: db where
  "other_role_db =
     \<lparr> lessons = ex_lessons,
       role_entries = [other_role_entry],
       lesson_items = [ex_item_host],
       db_now = ''t6'' \<rparr>"

definition other_role_detail :: lesson_detail where
  "other_role_detail =
     \<lparr> lesson = \<lparr> li_id = 1,
                  li_practiced_on = \<lparr> d_year = 2026, d_month = 1, d_day = 10 \<rparr>,
                  li_practice_name = Some ''New Year'' \<rparr>,
       chashitsu_tab = [],
       teishu_tab = [],
       kyaku_tab = [] \<rparr>"

text \<open>A body of Create Role Entry.\<close>

definition ex_role_body :: RoleEntryCreate where
  "ex_role_body = \<lparr> rc_role = ''kyaku'', rc_temae_name = Some ''koicha'', rc_note = None \<rparr>"

text \<open>
  Bodies of Add Item: an item of the host entry 1 with a conflicting section override,
  the same with a role entry that does not exist, and an item of the tea room.
\<close>

definition ex_item_body :: ItemCreate where
  "ex_item_body =
     \<lparr> ic_role_entry_id = Some 1, ic_section = Some ''kyaku'', ic_item_type = ''chawan'',
       ic_title = None, ic_mei = Some ''Yamazato'', ic_maker = None, ic_note = Some [] \<rparr>"

definition ex_bad_body :: ItemCreate where
  "ex_bad_body = ex_item_body\<lparr> ic_role_entry_id := Some 9999 \<rparr>"

definition ex_room_body :: ItemCreate where
  "ex_room_body =
     \<lparr> ic_role_entry_id = None, ic_section = None, ic_item_type = ''kama'',
       ic_title = None, ic_mei = None, ic_maker = Some ''Jomi'', ic_note = None \<rparr>"



text \<open>The row that Add Item stores for the tea-room body in lesson 2, which has no
  practice name.\<close>

definition ex_new_plain_item :: item_row where
  "ex_new_plain_item =
     \<lparr> i_id = 4, i_lesson_id = 2, i_role_entry_id = None, i_section = ''chashitsu'',
       i_item_type = ''kama'', i_title = None, i_mei = None, i_maker = Some ''Jomi'',
       i_note = None, i_search_text = ''chashitsu kama Jomi'',
       i_created_at = ''t6'' \<rparr>"

text \<open>
  A store for List Lessons: lesson 1 has three host entries, the most recent of them
  without a procedure name, and a guest entry without one.
\<close>

definition ex_list_entries :: "role_entry_row list" where
  "ex_list_entries =
     [\<lparr> re_id = 1, re_lesson_id = 1, re_role = ''teishu'', re_temae_name = Some ''usucha'',
        re_note = None, re_created_at = ''t1'' \<rparr>,
      \<lparr> re_id = 2, re_lesson_id = 1, re_role = ''teishu'', re_temae_name = Some ''koicha'',
        re_note = None, re_created_at = ''t2'' \<rparr>,
      \<lparr> re_id = 3, re_lesson_id = 1, re_role = ''teishu'', re_temae_name = None,
        re_note = None, re_created_at = ''t3'' \<rparr>,
      \<lparr> re_id = 4, re_lesson_id = 1, re_role = ''kyaku'', re_temae_name = None,
        re_note = None, re_created_at = ''t4'' \<rparr>]"

definition ex_list_db :: db where
  "ex_list_db = ex_db\<lparr> role_entries := ex_list_entries \<rparr>"

definition ex_summaries :: "lesson_summary list" where
  "ex_summaries =
     [\<lparr> ls_id = 2, ls_practiced_on = \<lparr> d_year = 2026, d_month = 2, d_day = 3 \<rparr>,
        ls_practice_name = None, ls_teishu_temae_name = None, ls_kyaku_temae_name = None \<rparr>,
      \<lparr> ls_id = 1, ls_practiced_on = \<lparr> d_year = 2026, d_month = 1, d_day = 10 \<rparr>,
        ls_practice_name = Some ''New Year'', ls_teishu_temae_name = Some ''koicha'',
        ls_kyaku_temae_name = None \<rparr>]"

text \<open>
  The example store with, in place of the guest entry, an entry of lesson 1 whose role
  is \<open>hanto\<close> and that no item references.
\<close>

definition mixed_entries :: "role_entry_row list" where
  "mixed_entries =
     [\<lparr> re_id = 1, re_lesson_id = 1, re_role = ''teishu'', re_temae_name = Some ''usucha'',
        re_note = None, re_created_at = ''t1'' \<rparr>,
      \<lparr> re_id = 2, re_lesson_id = 1, re_role = ''hanto'', re_temae_name = None,
        re_note = None, re_created_at = ''t2'' \<rparr>]"

definition mixed_db :: db where
  "mixed_db = ex_db\<lparr> role_entries := mixed_entries \<rparr>"

definition mixed_detail :: lesson_detail where
  "mixed_detail =
     \<lparr> lesson = \<lparr> li_id = 1,
                  li_practiced_on = \<lparr> d_year = 2026, d_month = 1, d_day = 10 \<rparr>,
                  li_practice_name = Some ''New Year'' \<rparr>,
       chashitsu_tab = [item_payload_of ex_item_room, item_payload_of ex_item_orphan],
       teishu_tab = [(entry_payload_of (mixed_entries ! 0))\<lparr> ep_items := [item_payload_of ex_item_host] \<rparr>],
       kyaku_tab = [] \<rparr>"

section \<open>Facts about the building blocks\<close>

lemma first_take_1: "first (take 1 rows) = first rows"
  by (cases rows) (simp_all add: first_def)

lemma first_eq_None: "first rows = None \<longleftrightarrow> rows = []"
  by (cases rows) (simp_all add: first_def)

lemma first_filter_None: "first (filter P rows) = None \<longleftrightarrow> \<not> (\<exists>r\<in>set rows. P r)"
  by (simp add: first_eq_None filter_empty_conv)

lemma first_filter_Some: "first (filter P rows) = Some r \<Longrightarrow> r \<in> set rows \<and> P r"
proof -
  assume "first (filter P rows) = Some r"
  then have "r \<in> set (filter P rows)"
    by (cases "filter P rows") (simp_all add: first_def)
  then show ?thesis by simp
qed

lemma fold_max_ge: "a \<le> fold max ids (a::int)"
  by (induction ids arbitrary: a) (auto intro: order_trans[OF max.cobounded2])

lemma fold_max_mem: "x \<in> set ids \<Longrightarrow> x \<le> fold max ids (a::int)"
proof (induction ids arbitrary: a)
  case Nil
  then show ?case by simp
next
  case (Cons y ys)
  show ?case
  proof (cases "x = y")
    case True
    have "max y a \<le> fold max ys (max y a)" by (rule fold_max_ge)
    with True show ?thesis by simp
  next
    case False
    with Cons show ?thesis by simp
  qed
qed

lemma next_id_fresh: "x \<in> set ids \<Longrightarrow> x < next_id ids"
  using fold_max_mem[of x ids 0] by (simp add: next_id_def)

lemma insort_key_snoc:
  "\<forall>y\<in>set zs. k y < k x \<Longrightarrow> k y < k x \<Longrightarrow> insort_key k y (zs @ [x]) = insort_key k y zs @ [x]"
  by (induction zs) auto

lemma sort_key_snoc:
  "\<forall>y\<in>set ys. k y < k x \<Longrightarrow> sort_key k (ys @ [x]) = sort_key k ys @ [x]"
proof (induction ys)
  case Nil
  then show ?case by simp
next
  case (Cons y ys)
  then have "sort_key k (ys @ [x]) = sort_key k ys @ [x]" by simp
  moreover have "\<forall>z\<in>set (sort_key k ys). k z < k x" using Cons.prems by simp
  ultimately show ?case using Cons.prems by (simp add: insort_key_snoc)
qed

lemma order_by_desc_snoc:
  "\<forall>y\<in>set ys. k y < k x \<Longrightarrow> order_by_desc k (ys @ [x]) = x # order_by_desc k ys"
  by (simp add: order_by_desc_def sort_key_snoc)

section \<open>Facts about the grouping of \<^verbatim>\<open>get_lesson_detail\<close>\<close>

lemma dict_set_keys: "map_of m k = Some e \<Longrightarrow> map fst (dict_set k v m) = map fst m"
  by (induction m) (auto split: if_splits)

lemma dict_set_key_set: "fst ` set (dict_set k v m) = insert k (fst ` set m)"
proof (induction m)
  case Nil
  show ?case by simp
next
  case (Cons p m)
  obtain k' v' where p: "p = (k', v')" by (cases p)
  show ?case using Cons by (cases "k' = k") (simp_all add: p insert_commute)
qed

lemma dict_set_subset: "set (dict_set k v m) \<subseteq> insert (k, v) (set m)"
  by (induction m) (auto split: if_splits)

lemma dict_set_append_items:
  "map_of m k = Some e \<Longrightarrow>
   mset (map_items (dict_set k (e\<lparr> ep_items := ep_items e @ [p] \<rparr>) m)) = mset (map_items m) + {#p#}"
  by (induction m) (auto simp: map_items_def split: if_splits)

lemma group_items_mset:
  "group_items items m c = (m', c') \<Longrightarrow>
   mset c' + mset (map_items m') = mset c + mset (map_items m) + mset (map item_payload_of items)"
proof (induction items arbitrary: m c)
  case Nil
  then show ?case by simp
next
  case (Cons it items)
  show ?case
  proof (cases "i_role_entry_id it")
    case None
    with Cons.prems have "group_items items m (c @ [item_payload_of it]) = (m', c')" by simp
    from Cons.IH[OF this] show ?thesis by simp
  next
    case (Some rid)
    show ?thesis
    proof (cases "map_of m rid")
      case None
      with Some Cons.prems have "group_items items m (c @ [item_payload_of it]) = (m', c')" by simp
      from Cons.IH[OF this] show ?thesis by simp
    next
      case (Some entry)
      with \<open>i_role_entry_id it = Some rid\<close> Cons.prems
      have "group_items items (dict_set rid (entry\<lparr> ep_items := ep_items entry @ [item_payload_of it] \<rparr>) m) c = (m', c')"
        by simp
      from Cons.IH[OF this] show ?thesis
        by (simp add: dict_set_append_items[OF Some])
    qed
  qed
qed

lemma tabs_count:
  "\<forall>v\<in>set vs. p \<in> set (ep_items v) \<longrightarrow> ep_role v = ''teishu'' \<or> ep_role v = ''kyaku'' \<Longrightarrow>
   count_list (concat (map ep_items (filter (\<lambda>v. ep_role v = ''teishu'') vs))) p +
   count_list (concat (map ep_items (filter (\<lambda>v. ep_role v = ''kyaku'') vs))) p =
   count_list (concat (map ep_items vs)) p"
proof (induction vs)
  case Nil
  then show ?case by simp
next
  case (Cons v vs)
  then have IH: "count_list (concat (map ep_items (filter (\<lambda>v. ep_role v = ''teishu'') vs))) p +
      count_list (concat (map ep_items (filter (\<lambda>v. ep_role v = ''kyaku'') vs))) p =
      count_list (concat (map ep_items vs)) p"
    by simp
  show ?case
  proof (cases "ep_role v = ''teishu'' \<or> ep_role v = ''kyaku''")
    case True
    with IH show ?thesis by auto
  next
    case False
    with Cons.prems have "p \<notin> set (ep_items v)" by auto
    then have "count_list (ep_items v) p = 0" by simp
    with False IH show ?thesis by simp
  qed
qed

lemma build_entry_map_pairs:
  "(k, v) \<in> set (build_entry_map es m) \<Longrightarrow>
   (k, v) \<in> set m \<or> (\<exists>e\<in>set es. k = re_id e \<and> v = entry_payload_of e)"
proof (induction es arbitrary: m)
  case Nil
  then show ?case by simp
next
  case (Cons e es)
  from Cons.prems have "(k, v) \<in> set (build_entry_map es (dict_set (re_id e) (entry_payload_of e) m))"
    by simp
  from Cons.IH[OF this] show ?case
  proof
    assume "(k, v) \<in> set (dict_set (re_id e) (entry_payload_of e) m)"
    with dict_set_subset[of "re_id e" "entry_payload_of e" m]
    have "(k, v) = (re_id e, entry_payload_of e) \<or> (k, v) \<in> set m" by auto
    then show ?thesis by auto
  next
    assume "\<exists>e\<in>set es. k = re_id e \<and> v = entry_payload_of e"
    then show ?thesis by auto
  qed
qed

lemma build_entry_map_keys:
  "fst ` set (build_entry_map es m) = fst ` set m \<union> re_id ` set es"
  by (induction es arbitrary: m) (auto simp: dict_set_key_set)

lemma group_items_keys:
  "group_items items m c = (m', c') \<Longrightarrow> map fst m' = map fst m"
proof (induction items arbitrary: m c)
  case Nil
  then show ?case by simp
next
  case (Cons it items)
  show ?case
  proof (cases "i_role_entry_id it")
    case None
    with Cons.prems have "group_items items m (c @ [item_payload_of it]) = (m', c')" by simp
    from Cons.IH[OF this] show ?thesis .
  next
    case (Some rid)
    show ?thesis
    proof (cases "map_of m rid")
      case None
      with Some Cons.prems have "group_items items m (c @ [item_payload_of it]) = (m', c')" by simp
      from Cons.IH[OF this] show ?thesis .
    next
      case (Some entry)
      with \<open>i_role_entry_id it = Some rid\<close> Cons.prems
      have "group_items items (dict_set rid (entry\<lparr> ep_items := ep_items entry @ [item_payload_of it] \<rparr>) m) c = (m', c')"
        by simp
      from Cons.IH[OF this] show ?thesis
        by (simp add: dict_set_keys[OF Some])
    qed
  qed
qed

lemma group_items_chashitsu_mono:
  "group_items items m c = (m', c') \<Longrightarrow> set c \<subseteq> set c'"
proof (induction items arbitrary: m c)
  case Nil
  then show ?case by simp
next
  case (Cons it items)
  show ?case
  proof (cases "i_role_entry_id it")
    case None
    with Cons.prems have "group_items items m (c @ [item_payload_of it]) = (m', c')" by simp
    from Cons.IH[OF this] show ?thesis by simp
  next
    case (Some rid)
    show ?thesis
    proof (cases "map_of m rid")
      case None
      with Some Cons.prems have "group_items items m (c @ [item_payload_of it]) = (m', c')" by simp
      from Cons.IH[OF this] show ?thesis by simp
    next
      case (Some entry)
      with \<open>i_role_entry_id it = Some rid\<close> Cons.prems
      have "group_items items (dict_set rid (entry\<lparr> ep_items := ep_items entry @ [item_payload_of it] \<rparr>) m) c = (m', c')"
        by simp
      from Cons.IH[OF this] show ?thesis .
    qed
  qed
qed

text \<open>An item with no role entry, or with one that is not a key of the dict, ends in
  the tea-room list.\<close>

lemma group_items_orphan:
  "group_items items m c = (m', c') \<Longrightarrow> it \<in> set items \<Longrightarrow>
   (case i_role_entry_id it of None \<Rightarrow> True | Some rid \<Rightarrow> rid \<notin> fst ` set m) \<Longrightarrow>
   item_payload_of it \<in> set c'"
proof (induction items arbitrary: m c)
  case Nil
  then show ?case by simp
next
  case (Cons x items)
  have step: "\<And>m1 c1. group_items items m1 c1 = (m', c') \<Longrightarrow> fst ` set m1 = fst ` set m \<Longrightarrow>
      it \<in> set items \<Longrightarrow> item_payload_of it \<in> set c'"
  proof -
    fix m1 c1
    assume g: "group_items items m1 c1 = (m', c')" and k: "fst ` set m1 = fst ` set m"
      and mem: "it \<in> set items"
    from Cons.prems(3) k
    have "case i_role_entry_id it of None \<Rightarrow> True | Some rid \<Rightarrow> rid \<notin> fst ` set m1"
      by (simp split: option.splits)
    from Cons.IH[OF g mem this] show "item_payload_of it \<in> set c'" .
  qed
  show ?case
  proof (cases "i_role_entry_id x")
    case None
    with Cons.prems have g: "group_items items m (c @ [item_payload_of x]) = (m', c')" by simp
    show ?thesis
    proof (cases "it = x")
      case True
      with group_items_chashitsu_mono[OF g] show ?thesis by auto
    next
      case False
      with Cons.prems(2) have "it \<in> set items" by simp
      from step[OF g refl this] show ?thesis .
    qed
  next
    case (Some rid)
    show ?thesis
    proof (cases "map_of m rid")
      case None
      with Some Cons.prems have g: "group_items items m (c @ [item_payload_of x]) = (m', c')" by simp
      show ?thesis
      proof (cases "it = x")
        case True
        with group_items_chashitsu_mono[OF g] show ?thesis by auto
      next
        case False
        with Cons.prems(2) have "it \<in> set items" by simp
        from step[OF g refl this] show ?thesis .
      qed
    next
      case (Some entry)
      with \<open>i_role_entry_id x = Some rid\<close> Cons.prems
      have g: "group_items items (dict_set rid (entry\<lparr> ep_items := ep_items entry @ [item_payload_of x] \<rparr>) m) c = (m', c')"
        by simp
      from Some have "rid \<in> fst ` set m" using map_of_eq_None_iff[of m rid] by auto
      have "it \<noteq> x"
      proof
        assume "it = x"
        with \<open>i_role_entry_id x = Some rid\<close> Cons.prems(3) have "rid \<notin> fst ` set m" by simp
        with \<open>rid \<in> fst ` set m\<close> show False by contradiction
      qed
      with Cons.prems(2) have mem: "it \<in> set items" by simp
      have "fst ` set (dict_set rid (entry\<lparr> ep_items := ep_items entry @ [item_payload_of x] \<rparr>) m) = fst ` set m"
        using \<open>rid \<in> fst ` set m\<close> by (simp add: dict_set_key_set insert_absorb)
      from step[OF g this mem] show ?thesis .
    qed
  qed
qed

lemma get_lesson_detail_Inr:
  assumes "get_lesson_detail d lid = Inr r"
  obtains l m' c' where "select_lesson d lid = Some l"
    and "group_items (select_items d lid) (build_entry_map (select_entries d lid) []) [] = (m', c')"
    and "chashitsu_tab r = c'"
    and "teishu_tab r = filter (\<lambda>v. ep_role v = ''teishu'') (map snd m')"
    and "kyaku_tab r = filter (\<lambda>v. ep_role v = ''kyaku'') (map snd m')"
proof -
  from assms obtain l where l: "select_lesson d lid = Some l"
    by (cases "select_lesson d lid") (simp_all add: get_lesson_detail_def)
  obtain m' c' where g: "group_items (select_items d lid) (build_entry_map (select_entries d lid) []) [] = (m', c')"
    by (cases "group_items (select_items d lid) (build_entry_map (select_entries d lid) []) []")
  from assms l g have "r = \<lparr> lesson = \<lparr> li_id = l_id l, li_practiced_on = l_practiced_on l,
                              li_practice_name = l_practice_name l \<rparr>,
                   chashitsu_tab = c',
                   teishu_tab = filter (\<lambda>v. ep_role v = ''teishu'') (map snd m'),
                   kyaku_tab = filter (\<lambda>v. ep_role v = ''kyaku'') (map snd m') \<rparr>"
    by (simp add: get_lesson_detail_def Let_def)
  then have "chashitsu_tab r = c'"
    and "teishu_tab r = filter (\<lambda>v. ep_role v = ''teishu'') (map snd m')"
    and "kyaku_tab r = filter (\<lambda>v. ep_role v = ''kyaku'') (map snd m')"
    by simp_all
  with l g that show thesis by blast
qed

lemma get_lesson_detail_returns:
  "select_lesson d lid = Some l \<Longrightarrow> \<exists>r. get_lesson_detail d lid = Inr r"
  by (simp add: get_lesson_detail_def Let_def split: prod.splits)

lemma select_lesson_Some_iff:
  "(\<exists>l. select_lesson d lid = Some l) \<longleftrightarrow> (\<exists>l\<in>set (lessons d). l_id l = lid \<and> l_user_id l = 1)"
proof -
  have "(\<exists>l. select_lesson d lid = Some l) \<longleftrightarrow> select_lesson d lid \<noteq> None" by auto
  also have "\<dots> \<longleftrightarrow> (\<exists>l\<in>set (lessons d). l_id l = lid \<and> l_user_id l = 1)"
    unfolding select_lesson_def first_take_1 first_filter_None by simp
  finally show ?thesis .
qed

lemma build_entry_map_empty_items: "map_items (build_entry_map es []) = []"
proof -
  have "\<forall>kv\<in>set (build_entry_map es []). ep_items (snd kv) = []"
  proof
    fix kv assume "kv \<in> set (build_entry_map es [])"
    then have "(fst kv, snd kv) \<in> set (build_entry_map es [])" by simp
    from build_entry_map_pairs[OF this] show "ep_items (snd kv) = []"
      by (auto simp: entry_payload_of_def)
  qed
  then show ?thesis by (simp add: map_items_def)
qed

lemma select_entries_set: "set (select_entries d lid) = {e \<in> set (role_entries d). re_lesson_id e = lid}"
  by (auto simp: select_entries_def order_by_asc_def)

lemma select_items_mset:
  "mset (select_items d lid) = mset (filter (\<lambda>i. i_lesson_id i = lid) (lesson_items d))"
  by (simp add: select_items_def order_by_asc_def)

lemma select_items_set: "set (select_items d lid) = {i \<in> set (lesson_items d). i_lesson_id i = lid}"
  by (auto simp: select_items_def order_by_asc_def)

lemma dict_set_map_of: "map_of (dict_set k v m) k' = (if k' = k then Some v else map_of m k')"
  by (induction m) auto

lemma group_items_pairs:
  "group_items items m c = (m', c') \<Longrightarrow> (k, v') \<in> set m' \<Longrightarrow>
   \<exists>v. (k, v) \<in> set m \<and> ep_role v' = ep_role v \<and> ep_role_entry_id v' = ep_role_entry_id v"
proof (induction items m c rule: group_items.induct)
  case (1 m c)
  then show ?case by auto
next
  case (2 it items m c)
  show ?case
  proof (cases "i_role_entry_id it")
    case None
    with 2 show ?thesis by simp
  next
    case (Some rid)
    show ?thesis
    proof (cases "map_of m rid")
      case None
      with Some 2 show ?thesis by simp
    next
      case (Some entry)
      let ?e' = "entry\<lparr> ep_items := ep_items entry @ [item_payload_of it] \<rparr>"
      from Some \<open>i_role_entry_id it = Some rid\<close> "2.prems"
      have g: "group_items items (dict_set rid ?e' m) c = (m', c')" by simp
      from "2.IH"(3)[OF \<open>i_role_entry_id it = Some rid\<close> Some g "2.prems"(2)]
      obtain v where v: "(k, v) \<in> set (dict_set rid ?e' m)" "ep_role v' = ep_role v"
        "ep_role_entry_id v' = ep_role_entry_id v" by blast
      from v(1) dict_set_subset[of rid ?e' m] have "(k, v) = (rid, ?e') \<or> (k, v) \<in> set m" by auto
      then show ?thesis
      proof
        assume "(k, v) = (rid, ?e')"
        with v map_of_SomeD[OF Some] show ?thesis by auto
      next
        assume "(k, v) \<in> set m"
        with v show ?thesis by auto
      qed
    qed
  qed
qed

lemma group_items_inv:
  "group_items items m c = (m', c') \<Longrightarrow>
   \<forall>kv\<in>set m. \<forall>p\<in>set (ep_items (snd kv)). ip_role_entry_id p = Some (fst kv) \<Longrightarrow>
   \<forall>p\<in>set c. \<forall>k. ip_role_entry_id p = Some k \<longrightarrow> k \<notin> fst ` set m \<Longrightarrow>
   (\<forall>kv\<in>set m'. \<forall>p\<in>set (ep_items (snd kv)). ip_role_entry_id p = Some (fst kv)) \<and>
   (\<forall>p\<in>set c'. \<forall>k. ip_role_entry_id p = Some k \<longrightarrow> k \<notin> fst ` set m')"
proof (induction items m c rule: group_items.induct)
  case (1 m c)
  then show ?case by simp
next
  case (2 it items m c)
  have pay: "ip_role_entry_id (item_payload_of it) = i_role_entry_id it"
    by (simp add: item_payload_of_def)
  show ?case
  proof (cases "i_role_entry_id it")
    case None
    with "2.prems" have g: "group_items items m (c @ [item_payload_of it]) = (m', c')" by simp
    have "\<forall>p\<in>set (c @ [item_payload_of it]). \<forall>k. ip_role_entry_id p = Some k \<longrightarrow> k \<notin> fst ` set m"
      using "2.prems"(3) None pay by simp
    from "2.IH"(1)[OF None g "2.prems"(2) this] show ?thesis .
  next
    case (Some rid)
    show ?thesis
    proof (cases "map_of m rid")
      case None
      with Some "2.prems" have g: "group_items items m (c @ [item_payload_of it]) = (m', c')" by simp
      from None have "rid \<notin> fst ` set m" by (simp add: map_of_eq_None_iff)
      then have "\<forall>p\<in>set (c @ [item_payload_of it]). \<forall>k. ip_role_entry_id p = Some k \<longrightarrow> k \<notin> fst ` set m"
        using "2.prems"(3) Some pay by simp
      from "2.IH"(2)[OF Some None g "2.prems"(2) this] show ?thesis .
    next
      case (Some entry)
      let ?e' = "entry\<lparr> ep_items := ep_items entry @ [item_payload_of it] \<rparr>"
      from Some \<open>i_role_entry_id it = Some rid\<close> "2.prems"
      have g: "group_items items (dict_set rid ?e' m) c = (m', c')" by simp
      have mem: "(rid, entry) \<in> set m" using Some by (rule map_of_SomeD)
      then have "rid \<in> fst ` set m" by (rule rev_image_eqI) simp
      then have keys: "fst ` set (dict_set rid ?e' m) = fst ` set m"
        by (simp add: dict_set_key_set insert_absorb)
      have a: "\<forall>kv\<in>set (dict_set rid ?e' m). \<forall>p\<in>set (ep_items (snd kv)). ip_role_entry_id p = Some (fst kv)"
      proof
        fix kv assume "kv \<in> set (dict_set rid ?e' m)"
        with dict_set_subset[of rid ?e' m] have "kv = (rid, ?e') \<or> kv \<in> set m" by auto
        then show "\<forall>p\<in>set (ep_items (snd kv)). ip_role_entry_id p = Some (fst kv)"
        proof
          assume kv: "kv = (rid, ?e')"
          from "2.prems"(2) mem have "\<forall>p\<in>set (ep_items entry). ip_role_entry_id p = Some rid"
            by fastforce
          with kv pay \<open>i_role_entry_id it = Some rid\<close> show ?thesis by simp
        next
          assume "kv \<in> set m"
          with "2.prems"(2) show ?thesis by blast
        qed
      qed
      have b: "\<forall>p\<in>set c. \<forall>k. ip_role_entry_id p = Some k \<longrightarrow> k \<notin> fst ` set (dict_set rid ?e' m)"
        using "2.prems"(3) by (simp only: keys)
      from "2.IH"(3)[OF \<open>i_role_entry_id it = Some rid\<close> Some g a b] show ?thesis .
    qed
  qed
qed

lemma group_items_grow:
  "group_items items m c = (m', c') \<Longrightarrow> map_of m k = Some v \<Longrightarrow>
   \<exists>v'. map_of m' k = Some v' \<and> set (ep_items v) \<subseteq> set (ep_items v')"
proof (induction items m c arbitrary: v rule: group_items.induct)
  case (1 m c)
  then show ?case by simp
next
  case (2 it items m c)
  show ?case
  proof (cases "i_role_entry_id it")
    case None
    with "2.prems" have g: "group_items items m (c @ [item_payload_of it]) = (m', c')" by simp
    from "2.IH"(1)[OF None g "2.prems"(2)] show ?thesis .
  next
    case (Some rid)
    show ?thesis
    proof (cases "map_of m rid")
      case None
      with Some "2.prems" have g: "group_items items m (c @ [item_payload_of it]) = (m', c')" by simp
      from "2.IH"(2)[OF Some None g "2.prems"(2)] show ?thesis .
    next
      case (Some entry)
      let ?e' = "entry\<lparr> ep_items := ep_items entry @ [item_payload_of it] \<rparr>"
      from Some \<open>i_role_entry_id it = Some rid\<close> "2.prems"
      have g: "group_items items (dict_set rid ?e' m) c = (m', c')" by simp
      show ?thesis
      proof (cases "k = rid")
        case True
        then have "map_of (dict_set rid ?e' m) k = Some ?e'" by (simp add: dict_set_map_of)
        from "2.IH"(3)[OF \<open>i_role_entry_id it = Some rid\<close> Some g this]
        obtain v' where "map_of m' k = Some v'" "set (ep_items ?e') \<subseteq> set (ep_items v')" by blast
        moreover from True Some "2.prems"(2) have "v = entry" by simp
        ultimately show ?thesis by auto
      next
        case False
        with "2.prems"(2) have "map_of (dict_set rid ?e' m) k = Some v" by (simp add: dict_set_map_of)
        from "2.IH"(3)[OF \<open>i_role_entry_id it = Some rid\<close> Some g this] show ?thesis .
      qed
    qed
  qed
qed

lemma group_items_attached:
  "group_items items m c = (m', c') \<Longrightarrow> it \<in> set items \<Longrightarrow> i_role_entry_id it = Some rid \<Longrightarrow>
   rid \<in> fst ` set m \<Longrightarrow>
   \<exists>v. map_of m' rid = Some v \<and> item_payload_of it \<in> set (ep_items v)"
proof (induction items m c rule: group_items.induct)
  case (1 m c)
  then show ?case by simp
next
  case (2 x items m c)
  show ?case
  proof (cases "i_role_entry_id x")
    case None
    with "2.prems" have g: "group_items items m (c @ [item_payload_of x]) = (m', c')" by simp
    from None "2.prems"(3) have "it \<noteq> x" by auto
    with "2.prems"(2) have "it \<in> set items" by simp
    from "2.IH"(1)[OF None g this "2.prems"(3,4)] show ?thesis .
  next
    case (Some xr)
    show ?thesis
    proof (cases "map_of m xr")
      case None
      with Some "2.prems" have g: "group_items items m (c @ [item_payload_of x]) = (m', c')" by simp
      from None have "xr \<notin> fst ` set m" by (simp add: map_of_eq_None_iff)
      have "it \<noteq> x"
      proof
        assume "it = x"
        with Some "2.prems"(3) have "xr = rid" by simp
        with \<open>xr \<notin> fst ` set m\<close> "2.prems"(4) show False by simp
      qed
      with "2.prems"(2) have "it \<in> set items" by simp
      from "2.IH"(2)[OF Some None g this "2.prems"(3,4)] show ?thesis .
    next
      case (Some entry)
      let ?e' = "entry\<lparr> ep_items := ep_items entry @ [item_payload_of x] \<rparr>"
      from Some \<open>i_role_entry_id x = Some xr\<close> "2.prems"
      have g: "group_items items (dict_set xr ?e' m) c = (m', c')" by simp
      have keys: "rid \<in> fst ` set (dict_set xr ?e' m)"
        using "2.prems"(4) by (simp add: dict_set_key_set)
      show ?thesis
      proof (cases "it = x")
        case True
        with \<open>i_role_entry_id x = Some xr\<close> "2.prems"(3) have "xr = rid" by simp
        then have "map_of (dict_set xr ?e' m) rid = Some ?e'" by (simp add: dict_set_map_of)
        from group_items_grow[OF g this] True show ?thesis by auto
      next
        case False
        with "2.prems"(2) have "it \<in> set items" by simp
        from "2.IH"(3)[OF \<open>i_role_entry_id x = Some xr\<close> Some g this "2.prems"(3) keys] show ?thesis .
      qed
    qed
  qed
qed

lemma build_entry_map_key_set:
  "fst ` set (build_entry_map (select_entries d lid) []) = {re_id e |e. e \<in> set (role_entries d) \<and> re_lesson_id e = lid}"
  by (auto simp: build_entry_map_keys select_entries_set)

lemma detail_map_entry:
  assumes g: "group_items (select_items d lid) (build_entry_map (select_entries d lid) []) [] = (m', c')"
    and kv: "(k, v) \<in> set m'"
  obtains e' where "e' \<in> set (role_entries d)" "re_lesson_id e' = lid" "k = re_id e'"
    "ep_role v = re_role e'" "ep_role_entry_id v = re_id e'"
proof -
  from group_items_pairs[OF g kv] obtain v0 where
    v0: "(k, v0) \<in> set (build_entry_map (select_entries d lid) [])"
      "ep_role v = ep_role v0" "ep_role_entry_id v = ep_role_entry_id v0" by blast
  from build_entry_map_pairs[OF v0(1)] obtain e' where
    e': "e' \<in> set (select_entries d lid)" "k = re_id e'" "v0 = entry_payload_of e'" by auto
  from e'(1) have "e' \<in> set (role_entries d)" "re_lesson_id e' = lid"
    by (simp_all add: select_entries_set)
  moreover from v0 e' have "ep_role v = re_role e'" "ep_role_entry_id v = re_id e'"
    by (simp_all add: entry_payload_of_def)
  ultimately show thesis using that e'(2) by blast
qed

lemma create_role_entry_roles:
  assumes "create_role_entry d lid body = (d', res)" and "x \<in> set (role_entries d')"
  shows "x \<in> set (role_entries d) \<or> re_role x = ''teishu'' \<or> re_role x = ''kyaku''"
proof (cases "RoleEntryCreate_valid body")
  case False
  with assms show ?thesis by (simp add: create_role_entry_def)
next
  case True
  show ?thesis
  proof (cases "select_lesson d lid")
    case None
    with True assms show ?thesis by (simp add: create_role_entry_def)
  next
    case (Some l)
    with True assms have "d' = insert_role_entry d lid body"
      by (simp add: create_role_entry_def Let_def)
    with assms(2) have "x \<in> set (role_entries d) \<or> re_role x = rc_role body"
      by (auto simp: insert_role_entry_def new_role_entry_row_def)
    with True show ?thesis by (auto simp: RoleEntryCreate_valid_def)
  qed
qed

section \<open>Facts about \<^verbatim>\<open>add_item_to_lesson\<close>\<close>

lemma select_last_item_insert:
  "select_last_item (insert_item d lid body sec st) lid = Some (new_item_row d lid body sec st)"
proof -
  let ?new = "new_item_row d lid body sec st"
  let ?old = "filter (\<lambda>i. i_lesson_id i = lid) (lesson_items d)"
  have lid: "i_lesson_id ?new = lid" by (simp add: new_item_row_def)
  have rows: "filter (\<lambda>i. i_lesson_id i = lid) (lesson_items (insert_item d lid body sec st)) = ?old @ [?new]"
    by (simp add: insert_item_def lid)
  have "\<forall>y\<in>set ?old. i_id y < i_id ?new"
  proof
    fix y assume "y \<in> set ?old"
    then have "i_id y \<in> set (map i_id (lesson_items d))" by auto
    from next_id_fresh[OF this] show "i_id y < i_id ?new" by (simp add: new_item_row_def)
  qed
  then have "order_by_desc i_id (?old @ [?new]) = ?new # order_by_desc i_id ?old"
    by (rule order_by_desc_snoc)
  then show ?thesis
    unfolding select_last_item_def rows first_take_1 by (simp add: first_def)
qed

lemma add_item_success:
  assumes "ItemCreate_valid body" and "select_lesson d lid = Some l"
    and "resolve_section d lid body = Inr (sec, temae)"
  shows "add_item_to_lesson d lid body =
     (insert_item d lid body sec (build_search_text sec temae body (str_or (l_practice_name l) '''')),
      Inr (Some (new_item_row d lid body sec (build_search_text sec temae body (str_or (l_practice_name l) '''')))))"
  using assms by (simp add: add_item_to_lesson_def Let_def select_last_item_insert)

lemma add_item_Inr:
  assumes "add_item_to_lesson d lid body = (d', Inr ret)"
  obtains l sec temae where "ItemCreate_valid body" "select_lesson d lid = Some l"
    "resolve_section d lid body = Inr (sec, temae)"
proof -
  from assms have v: "ItemCreate_valid body"
    by (cases "ItemCreate_valid body") (simp_all add: add_item_to_lesson_def)
  from assms v obtain l where l: "select_lesson d lid = Some l"
    by (cases "select_lesson d lid") (simp_all add: add_item_to_lesson_def)
  from assms v l obtain st where "resolve_section d lid body = Inr st"
    by (cases "resolve_section d lid body") (simp_all add: add_item_to_lesson_def Let_def)
  then obtain sec temae where "resolve_section d lid body = Inr (sec, temae)"
    by (cases st) simp
  with v l that show thesis by blast
qed

lemma select_role_entry_None:
  "select_role_entry d rid lid = None \<longleftrightarrow> \<not> (\<exists>e\<in>set (role_entries d). re_id e = rid \<and> re_lesson_id e = lid)"
  unfolding select_role_entry_def first_take_1 first_filter_None ..

lemma select_role_entry_Some:
  "select_role_entry d rid lid = Some e \<Longrightarrow> e \<in> set (role_entries d) \<and> re_id e = rid \<and> re_lesson_id e = lid"
  unfolding select_role_entry_def first_take_1 by (drule first_filter_Some) simp

lemma select_lesson_None:
  "select_lesson d lid = None \<longleftrightarrow> \<not> (\<exists>l\<in>set (lessons d). l_id l = lid \<and> l_user_id l = 1)"
  unfolding select_lesson_def first_take_1 first_filter_None ..

lemma str_or_empty: "str_or x [] = opt_str x"
  by (simp add: str_or_def opt_str_def split: option.splits)



lemma split_space_join:
  "ps \<noteq> [] \<Longrightarrow> \<forall>p\<in>set ps. CHR '' '' \<notin> set p \<Longrightarrow> split_space (join '' '' ps) = ps"
proof (induction "'' ''" ps rule: join.induct)
  case 1
  then show ?case by simp
next
  case (2 p)
  then have "CHR '' '' \<notin> set p" by simp
  then have "split_space p = [p]"
    by (induction p) (auto split: list.splits)
  then show ?case by simp
next
  case (3 p q ps)
  then have IH: "split_space (join '' '' (q # ps)) = q # ps" by simp
  from 3 have "CHR '' '' \<notin> set p" by simp
  then have "split_space (p @ '' '' @ join '' '' (q # ps)) = p # q # ps"
    using IH by (induction p) (auto split: list.splits)
  then show ?case by simp
qed

lemma resolve_section_Inr:
  assumes valid: "ItemCreate_valid body" and rs: "resolve_section d lid body = Inr (sec, temae)"
  shows "temae = entry_temae_name d lid body \<and> sec \<noteq> []"
proof (cases "ic_role_entry_id body")
  case None
  with rs have "sec = str_or (ic_section body) ''chashitsu''" "temae = []"
    by (simp_all add: resolve_section_def)
  with None valid show ?thesis
    by (auto simp: entry_temae_name_def str_or_def ItemCreate_valid_def split: option.splits)
next
  case (Some rid)
  with rs obtain e where e: "select_role_entry d rid lid = Some e"
    by (cases "select_role_entry d rid lid") (simp_all add: resolve_section_def)
  with Some rs have sec: "sec = infer_section e body" and temae: "temae = str_or (re_temae_name e) []"
    by (simp_all add: resolve_section_def)
  have "entry_temae_name d lid body = opt_str (re_temae_name e)"
    by (simp add: entry_temae_name_def Some e)
  with temae have "temae = entry_temae_name d lid body"
    by (simp add: str_or_empty)
  moreover from sec valid have "sec \<noteq> []"
    by (auto simp: infer_section_def str_or_def ItemCreate_valid_def split: option.splits)
  ultimately show ?thesis by simp
qed

section \<open>Facts about \<^verbatim>\<open>search_items\<close>\<close>

lemma set_order_by_desc: "set (order_by_desc k rows) = set rows"
  by (simp add: order_by_desc_def)

lemma set_search_matching:
  "set (search_matching like d year pn it s ql)
     = {row \<in> set (lessons_join_items d). search_where like year pn it s ql row}"
  by (auto simp: search_matching_def set_order_by_desc)

lemma strip_blank: "\<forall>c\<in>set q. isspace c \<Longrightarrow> strip q = []"
proof -
  assume "\<forall>c\<in>set q. isspace c"
  then have "dropWhile isspace q = []" by simp
  then show ?thesis by (simp only: strip_def rev.simps dropWhile.simps)
qed

lemma q_like_of_None: "q_like_of None = None"
  by (simp add: q_like_of_def str_or_def strip_def)

lemma q_like_of_blank: "\<forall>c\<in>set q. isspace c \<Longrightarrow> q_like_of (Some q) = None"
proof -
  assume b: "\<forall>c\<in>set q. isspace c"
  have "str_or (Some q) [] = q" by (simp add: str_or_def)
  with strip_blank[OF b] show ?thesis by (simp add: q_like_of_def)
qed

section \<open>Facts about \<^verbatim>\<open>list_lessons\<close>\<close>

lemma first_rev: "ys \<noteq> [] \<Longrightarrow> first (rev ys) = Some (last ys)"
  by (cases ys rule: rev_cases) (simp_all add: first_def)

lemma sorted_le_last: "sorted xs \<Longrightarrow> x \<in> set xs \<Longrightarrow> x \<le> last (xs :: 'a::linorder list)"
  by (induction xs) auto

lemma first_order_by_desc:
  assumes "rows \<noteq> []"
  shows "\<exists>r. first (order_by_desc k rows) = Some r \<and> r \<in> set rows \<and> (\<forall>r'\<in>set rows. k r' \<le> k r)"
proof -
  let ?ys = "sort_key k rows"
  from assms have ne: "?ys \<noteq> []" by (metis length_sort length_0_conv)
  then have f: "first (order_by_desc k rows) = Some (last ?ys)"
    unfolding order_by_desc_def by (rule first_rev)
  have mem: "last ?ys \<in> set rows" using ne last_in_set[of ?ys] by simp
  have "\<forall>r'\<in>set rows. k r' \<le> k (last ?ys)"
  proof
    fix r' assume "r' \<in> set rows"
    then have "k r' \<in> set (map k ?ys)" by simp
    moreover have "sorted (map k ?ys)" by (rule sorted_sort_key)
    ultimately have "k r' \<le> last (map k ?ys)" by (rule sorted_le_last[rotated])
    with ne show "k r' \<le> k (last ?ys)" by (simp add: last_map)
  qed
  with f mem show ?thesis by blast
qed

lemma temae_subquery_most_recent: "most_recent_temae d lid role (temae_subquery d lid role)"
proof -
  let ?P = "\<lambda>re. re_lesson_id re = lid \<and> re_role re = role \<and> re_temae_name re \<noteq> None"
  let ?rows = "filter ?P (role_entries d)"
  have sub: "temae_subquery d lid role =
      (case first (order_by_desc re_id ?rows) of None \<Rightarrow> None | Some re \<Rightarrow> re_temae_name re)"
    unfolding temae_subquery_def first_take_1 ..
  show ?thesis
  proof (cases "?rows = []")
    case True
    then have "\<not> (\<exists>e\<in>set (role_entries d). named_entry lid role e)"
      by (simp add: filter_empty_conv named_entry_def)
    moreover from True have "temae_subquery d lid role = None"
      by (simp add: sub order_by_desc_def first_def)
    ultimately show ?thesis by (simp add: most_recent_temae_def)
  next
    case False
    from first_order_by_desc[OF False, of re_id] obtain e where
      e: "first (order_by_desc re_id ?rows) = Some e" "e \<in> set ?rows"
        "\<forall>r'\<in>set ?rows. re_id r' \<le> re_id e" by blast
    from e(2) have ne: "e \<in> set (role_entries d)" "named_entry lid role e"
      by (simp_all add: named_entry_def)
    from e(3) have mx: "\<forall>e'\<in>set (role_entries d). named_entry lid role e' \<longrightarrow> re_id e' \<le> re_id e"
      by (simp add: named_entry_def)
    from e(1) have "temae_subquery d lid role = re_temae_name e" by (simp add: sub)
    with ne mx show ?thesis unfolding most_recent_temae_def by auto
  qed
qed

section \<open>Claims\<close>

subsection \<open>C1: every item of the lesson appears exactly once in the detail\<close>

text \<open>
  C1. For Get Lesson Detail on an existing owned lesson, every item row of the lesson
  appears exactly once in the response, counting the tea-room list and the item lists of
  all host and guest entries, whatever the referential inconsistencies between items and
  role entries. The code does this for every item whose role_entry_id is absent, matches
  no role entry of the lesson, or matches a role entry whose role is \<open>teishu\<close> or
  \<open>kyaku\<close>, the only roles the Create Role Entry endpoint accepts; entries with another
  role may be in the lesson, as long as this item is not theirs. Item identifiers are
  unique, as a primary key is.
\<close>

theorem get_lesson_detail_items_once:
  assumes r: "get_lesson_detail d lid = Inr r"
    and pk: "distinct (map i_id (lesson_items d))"
    and it: "it \<in> set (lesson_items d)" "i_lesson_id it = lid"
    and role: "\<forall>e\<in>set (role_entries d).
        re_lesson_id e = lid \<and> i_role_entry_id it = Some (re_id e) \<longrightarrow>
        re_role e = ''teishu'' \<or> re_role e = ''kyaku''"
  shows "count_list (detail_items r) (item_payload_of it) = 1"
proof -
  from r obtain l m' c' where
    g: "group_items (select_items d lid) (build_entry_map (select_entries d lid) []) [] = (m', c')"
    and ch: "chashitsu_tab r = c'"
    and te: "teishu_tab r = filter (\<lambda>v. ep_role v = ''teishu'') (map snd m')"
    and ky: "kyaku_tab r = filter (\<lambda>v. ep_role v = ''kyaku'') (map snd m')"
    by (rule get_lesson_detail_Inr)
  let ?m0 = "build_entry_map (select_entries d lid) []"
  let ?p = "item_payload_of it"
  let ?xs = "filter (\<lambda>i. i_lesson_id i = lid) (lesson_items d)"
  \<comment> \<open>the payload is once among the payloads of the lesson's rows\<close>
  have ids: "map ip_item_id (map item_payload_of ?xs) = map i_id ?xs"
    by (simp add: item_payload_of_def comp_def)
  have "distinct (map i_id ?xs)" using pk by (rule distinct_map_filter)
  then have "distinct (map ip_item_id (map item_payload_of ?xs))" by (simp only: ids)
  then have dist: "distinct (map item_payload_of ?xs)" by (simp only: distinct_map)
  have "?p \<in> set (map item_payload_of ?xs)" using it by auto
  with dist have one: "count (mset (map item_payload_of ?xs)) ?p = 1"
    by (simp add: distinct_count_atmost_1 del: mset_map)
  \<comment> \<open>the grouping keeps every payload, in the tea-room list or in an entry of the dict\<close>
  from group_items_mset[OF g]
  have "mset c' + mset (map_items m') = mset (map item_payload_of (select_items d lid))"
    by (simp add: build_entry_map_empty_items)
  also have "\<dots> = mset (map item_payload_of ?xs)"
    unfolding mset_map select_items_mset ..
  finally have "count (mset c' + mset (map_items m')) ?p = 1"
    using one by simp
  then have total: "count_list c' ?p + count_list (map_items m') ?p = 1"
    by (simp add: count_mset[symmetric] del: count_mset)
  \<comment> \<open>an entry of the dict that holds the payload is the item's own, a host or a guest entry\<close>
  have inv0: "\<forall>kv\<in>set ?m0. \<forall>p\<in>set (ep_items (snd kv)). ip_role_entry_id p = Some (fst kv)"
  proof
    fix kv assume "kv \<in> set ?m0"
    then have "(fst kv, snd kv) \<in> set ?m0" by simp
    from build_entry_map_pairs[OF this] have "ep_items (snd kv) = []"
      by (auto simp: entry_payload_of_def)
    then show "\<forall>p\<in>set (ep_items (snd kv)). ip_role_entry_id p = Some (fst kv)" by simp
  qed
  have inv: "\<forall>kv\<in>set m'. \<forall>p\<in>set (ep_items (snd kv)). ip_role_entry_id p = Some (fst kv)"
    using group_items_inv[OF g inv0] by simp
  have shown: "\<forall>v\<in>set (map snd m'). ?p \<in> set (ep_items v) \<longrightarrow>
      ep_role v = ''teishu'' \<or> ep_role v = ''kyaku''"
  proof (intro ballI impI)
    fix v assume v: "v \<in> set (map snd m')" and pin: "?p \<in> set (ep_items v)"
    from v obtain k where kv: "(k, v) \<in> set m'" by auto
    with inv pin have "ip_role_entry_id ?p = Some k" by fastforce
    then have ref: "i_role_entry_id it = Some k" by (simp add: item_payload_of_def)
    from detail_map_entry[OF g kv] obtain e' where
      e': "e' \<in> set (role_entries d)" "re_lesson_id e' = lid" "k = re_id e'"
        "ep_role v = re_role e'" by metis
    with ref role have "re_role e' = ''teishu'' \<or> re_role e' = ''kyaku''" by blast
    with e'(4) show "ep_role v = ''teishu'' \<or> ep_role v = ''kyaku''" by simp
  qed
  from tabs_count[OF shown]
  have "count_list (concat (map ep_items (teishu_tab r))) ?p
      + count_list (concat (map ep_items (kyaku_tab r))) ?p = count_list (map_items m') ?p"
    by (simp add: te ky map_items_def comp_def)
  with total show ?thesis
    by (simp add: detail_items_def ch)
qed

theorem get_lesson_detail_items_once_witness:
  "get_lesson_detail mixed_db 1 = Inr mixed_detail
   \<and> re_role (mixed_entries ! 1) = ''hanto'' \<and> re_lesson_id (mixed_entries ! 1) = 1
   \<and> count_list (detail_items mixed_detail) (item_payload_of ex_item_host) = 1
   \<and> count_list (detail_items mixed_detail) (item_payload_of ex_item_room) = 1
   \<and> count_list (detail_items mixed_detail) (item_payload_of ex_item_orphan) = 1"
proof -
  have r: "get_lesson_detail mixed_db 1 = Inr mixed_detail"
    by code_simp
  have pk: "distinct (map i_id (lesson_items mixed_db))"
    by code_simp
  have other: "re_role (mixed_entries ! 1) = ''hanto''" "re_lesson_id (mixed_entries ! 1) = 1"
    by (simp_all add: mixed_entries_def)
  have host: "ex_item_host \<in> set (lesson_items mixed_db)" "i_lesson_id ex_item_host = 1"
    and room: "ex_item_room \<in> set (lesson_items mixed_db)" "i_lesson_id ex_item_room = 1"
    and orphan: "ex_item_orphan \<in> set (lesson_items mixed_db)" "i_lesson_id ex_item_orphan = 1"
    by (simp_all add: mixed_db_def ex_db_def ex_item_host_def ex_item_room_def ex_item_orphan_def)
  have host_role: "\<forall>e\<in>set (role_entries mixed_db).
      re_lesson_id e = 1 \<and> i_role_entry_id ex_item_host = Some (re_id e) \<longrightarrow>
      re_role e = ''teishu'' \<or> re_role e = ''kyaku''"
    by code_simp
  have room_role: "\<forall>e\<in>set (role_entries mixed_db).
      re_lesson_id e = 1 \<and> i_role_entry_id ex_item_room = Some (re_id e) \<longrightarrow>
      re_role e = ''teishu'' \<or> re_role e = ''kyaku''"
    by code_simp
  have orphan_role: "\<forall>e\<in>set (role_entries mixed_db).
      re_lesson_id e = 1 \<and> i_role_entry_id ex_item_orphan = Some (re_id e) \<longrightarrow>
      re_role e = ''teishu'' \<or> re_role e = ''kyaku''"
    by code_simp
  from get_lesson_detail_items_once[OF r pk host host_role]
    get_lesson_detail_items_once[OF r pk room room_role]
    get_lesson_detail_items_once[OF r pk orphan orphan_role]
    r other
  show ?thesis by simp
qed

text \<open>
  As stated, for every database state, C1 fails: the item of a role entry whose role is
  \<open>hanto\<close> is in no list of the response.
\<close>

theorem get_lesson_detail_items_once_counterexample:
  "get_lesson_detail other_role_db 1 = Inr other_role_detail
   \<and> ex_item_host \<in> set (lesson_items other_role_db)
   \<and> i_lesson_id ex_item_host = 1
   \<and> count_list (detail_items other_role_detail) (item_payload_of ex_item_host) = 0"
  by code_simp

subsection \<open>C7: an item whose role entry is missing is shown in the tea-room tab\<close>

text \<open>
  C7. In Get Lesson Detail, an item that carries a role_entry_id matching no role entry
  fetched for the lesson is placed in the tea-room (chashitsu) list: the operation
  returns a response, and the item is in that list.
\<close>

theorem orphan_item_in_chashitsu:
  assumes lesson: "\<exists>l\<in>set (lessons d). l_id l = lid \<and> l_user_id l = 1"
    and it: "it \<in> set (lesson_items d)" "i_lesson_id it = lid"
    and ref: "i_role_entry_id it = Some rid"
    and orphan: "\<not> (\<exists>e\<in>set (role_entries d). re_lesson_id e = lid \<and> re_id e = rid)"
  shows "\<exists>r. get_lesson_detail d lid = Inr r \<and> item_payload_of it \<in> set (chashitsu_tab r)"
proof -
  from lesson obtain l where "select_lesson d lid = Some l"
    using select_lesson_Some_iff[of d lid] by blast
  then obtain r where r: "get_lesson_detail d lid = Inr r"
    using get_lesson_detail_returns by blast
  then obtain m' c' where
    g: "group_items (select_items d lid) (build_entry_map (select_entries d lid) []) [] = (m', c')"
    and ch: "chashitsu_tab r = c'"
    by (rule get_lesson_detail_Inr)
  have mem: "it \<in> set (select_items d lid)"
    using it by (simp add: select_items_set)
  have "rid \<notin> fst ` set (build_entry_map (select_entries d lid) [])"
    using orphan unfolding build_entry_map_key_set by blast
  with ref have "case i_role_entry_id it of None \<Rightarrow> True
      | Some rid \<Rightarrow> rid \<notin> fst ` set (build_entry_map (select_entries d lid) [])"
    by simp
  from group_items_orphan[OF g mem this] ch r show ?thesis by simp
qed

theorem orphan_item_in_chashitsu_witness:
  "get_lesson_detail ex_db 1 = Inr ex_detail
   \<and> i_role_entry_id ex_item_orphan = Some 9
   \<and> item_payload_of ex_item_orphan \<in> set (chashitsu_tab ex_detail)"
proof -
  have lesson: "\<exists>l\<in>set (lessons ex_db). l_id l = 1 \<and> l_user_id l = 1"
    by code_simp
  have it: "ex_item_orphan \<in> set (lesson_items ex_db)" "i_lesson_id ex_item_orphan = 1"
    by (simp_all add: ex_db_def ex_item_orphan_def)
  have ref: "i_role_entry_id ex_item_orphan = Some 9"
    by (simp add: ex_item_orphan_def)
  have orphan: "\<not> (\<exists>e\<in>set (role_entries ex_db). re_lesson_id e = 1 \<and> re_id e = 9)"
    by code_simp
  have r: "get_lesson_detail ex_db 1 = Inr ex_detail"
    by code_simp
  from orphan_item_in_chashitsu[OF lesson it ref orphan] r ref show ?thesis
    by simp
qed

subsection \<open>C10: a role entry with another role, and its items, are not shown\<close>

text \<open>
  C10. In the Get Lesson Detail response, a role entry whose role is neither \<open>teishu\<close>
  nor \<open>kyaku\<close> is in neither the host tab nor the guest tab; an item that references it
  is appended to that entry's item list in the dict, and so is nowhere in the response.
  Data created through Create Role Entry never is in this situation: a row the endpoint
  adds has the role \<open>teishu\<close> or \<open>kyaku\<close>. (Role entry identifiers are unique, as a
  primary key is.)
\<close>

theorem other_role_entry_hidden:
  assumes r: "get_lesson_detail d lid = Inr r"
    and pk: "distinct (map re_id (role_entries d))"
    and e: "e \<in> set (role_entries d)" "re_lesson_id e = lid"
    and role: "re_role e \<noteq> ''teishu''" "re_role e \<noteq> ''kyaku''"
  shows "(\<forall>v\<in>set (teishu_tab r) \<union> set (kyaku_tab r). ep_role_entry_id v \<noteq> re_id e)
    \<and> (\<forall>it\<in>set (lesson_items d). i_lesson_id it = lid \<and> i_role_entry_id it = Some (re_id e) \<longrightarrow>
          (\<exists>m' c' v. group_items (select_items d lid) (build_entry_map (select_entries d lid) []) []
                        = (m', c')
                    \<and> map_of m' (re_id e) = Some v \<and> item_payload_of it \<in> set (ep_items v))
          \<and> item_payload_of it \<notin> set (detail_items r))
    \<and> (create_role_entry d0 lid0 body = (d1, res) \<longrightarrow>
          (\<forall>x\<in>set (role_entries d1).
              x \<in> set (role_entries d0) \<or> re_role x = ''teishu'' \<or> re_role x = ''kyaku''))"
proof -
  from r obtain l m' c' where
    g: "group_items (select_items d lid) (build_entry_map (select_entries d lid) []) [] = (m', c')"
    and ch: "chashitsu_tab r = c'"
    and te: "teishu_tab r = filter (\<lambda>v. ep_role v = ''teishu'') (map snd m')"
    and ky: "kyaku_tab r = filter (\<lambda>v. ep_role v = ''kyaku'') (map snd m')"
    by (rule get_lesson_detail_Inr)
  let ?m0 = "build_entry_map (select_entries d lid) []"
  have inj: "inj_on re_id (set (role_entries d))"
    using pk by (simp add: distinct_map)
  have key_e: "re_id e \<in> fst ` set ?m0"
    unfolding build_entry_map_key_set using e by blast
  have keys: "fst ` set m' = fst ` set ?m0"
    using group_items_keys[OF g] by (metis set_map)
  \<comment> \<open>the entry of the dict under the key of \<open>e\<close> is \<open>e\<close>\<close>
  have entry_e: "ep_role v = re_role e" if "(re_id e, v) \<in> set m'" for v
  proof -
    from detail_map_entry[OF g that] obtain e' where
      e': "e' \<in> set (role_entries d)" "re_id e = re_id e'" "ep_role v = re_role e'" by metis
    from inj e(1) e'(1,2) have "e' = e" by (auto dest: inj_onD)
    with e'(3) show ?thesis by simp
  qed
  have tab_role: "ep_role v = ''teishu'' \<or> ep_role v = ''kyaku''"
    and tab_mem: "\<exists>k. (k, v) \<in> set m'"
    if "v \<in> set (teishu_tab r) \<union> set (kyaku_tab r)" for v
    using that by (auto simp: te ky)
  have a: "\<forall>v\<in>set (teishu_tab r) \<union> set (kyaku_tab r). ep_role_entry_id v \<noteq> re_id e"
  proof
    fix v assume v: "v \<in> set (teishu_tab r) \<union> set (kyaku_tab r)"
    from tab_mem[OF v] obtain k where kv: "(k, v) \<in> set m'" by blast
    from detail_map_entry[OF g kv] obtain e' where
      e': "e' \<in> set (role_entries d)" "ep_role v = re_role e'" "ep_role_entry_id v = re_id e'"
      by metis
    show "ep_role_entry_id v \<noteq> re_id e"
    proof
      assume "ep_role_entry_id v = re_id e"
      with e'(3) have "re_id e' = re_id e" by simp
      with inj e(1) e'(1) have "e' = e" by (auto dest: inj_onD)
      with e'(2) tab_role[OF v] role show False by simp
    qed
  qed
  have inv0: "\<forall>kv\<in>set ?m0. \<forall>p\<in>set (ep_items (snd kv)). ip_role_entry_id p = Some (fst kv)"
  proof
    fix kv assume "kv \<in> set ?m0"
    then have "(fst kv, snd kv) \<in> set ?m0" by simp
    from build_entry_map_pairs[OF this] have "ep_items (snd kv) = []"
      by (auto simp: entry_payload_of_def)
    then show "\<forall>p\<in>set (ep_items (snd kv)). ip_role_entry_id p = Some (fst kv)" by simp
  qed
  have inv: "\<forall>kv\<in>set m'. \<forall>p\<in>set (ep_items (snd kv)). ip_role_entry_id p = Some (fst kv)"
    and inv_c: "\<forall>p\<in>set c'. \<forall>k. ip_role_entry_id p = Some k \<longrightarrow> k \<notin> fst ` set m'"
    using group_items_inv[OF g inv0] by simp_all
  have b: "\<forall>it\<in>set (lesson_items d). i_lesson_id it = lid \<and> i_role_entry_id it = Some (re_id e) \<longrightarrow>
          (\<exists>m' c' v. group_items (select_items d lid) ?m0 [] = (m', c')
                    \<and> map_of m' (re_id e) = Some v \<and> item_payload_of it \<in> set (ep_items v))
          \<and> item_payload_of it \<notin> set (detail_items r)"
  proof (intro ballI impI)
    fix it assume it: "it \<in> set (lesson_items d)"
      and h: "i_lesson_id it = lid \<and> i_role_entry_id it = Some (re_id e)"
    let ?p = "item_payload_of it"
    have p: "ip_role_entry_id ?p = Some (re_id e)"
      using h by (simp add: item_payload_of_def)
    from it h have mem: "it \<in> set (select_items d lid)" by (simp add: select_items_set)
    from group_items_attached[OF g mem _ key_e] h
    have att: "\<exists>v. map_of m' (re_id e) = Some v \<and> ?p \<in> set (ep_items v)" by simp
    have "?p \<notin> set c'"
    proof
      assume "?p \<in> set c'"
      with inv_c p have "re_id e \<notin> fst ` set m'" by blast
      with keys key_e show False by simp
    qed
    moreover have "?p \<notin> set (ep_items v)" if v: "v \<in> set (teishu_tab r) \<union> set (kyaku_tab r)" for v
    proof
      assume pin: "?p \<in> set (ep_items v)"
      from tab_mem[OF v] obtain k where kv: "(k, v) \<in> set m'" by blast
      with inv pin have "ip_role_entry_id ?p = Some k" by fastforce
      with p have "k = re_id e" by simp
      with kv have "ep_role v = re_role e" by (simp add: entry_e)
      with tab_role[OF v] role show False by simp
    qed
    ultimately have "?p \<notin> set (detail_items r)"
      by (auto simp: detail_items_def ch)
    with att g show "(\<exists>m' c' v. group_items (select_items d lid) ?m0 [] = (m', c')
                    \<and> map_of m' (re_id e) = Some v \<and> ?p \<in> set (ep_items v))
          \<and> ?p \<notin> set (detail_items r)" by blast
  qed
  have c: "create_role_entry d0 lid0 body = (d1, res) \<longrightarrow>
          (\<forall>x\<in>set (role_entries d1).
              x \<in> set (role_entries d0) \<or> re_role x = ''teishu'' \<or> re_role x = ''kyaku'')"
    using create_role_entry_roles by blast
  from a b c show ?thesis by blast
qed

theorem other_role_entry_hidden_witness:
  "get_lesson_detail other_role_db 1 = Inr other_role_detail
   \<and> re_role other_role_entry = ''hanto''
   \<and> i_role_entry_id ex_item_host = Some (re_id other_role_entry)
   \<and> teishu_tab other_role_detail = [] \<and> kyaku_tab other_role_detail = []
   \<and> item_payload_of ex_item_host \<notin> set (detail_items other_role_detail)"
proof -
  have r: "get_lesson_detail other_role_db 1 = Inr other_role_detail"
    by code_simp
  have pk: "distinct (map re_id (role_entries other_role_db))"
    by code_simp
  have e: "other_role_entry \<in> set (role_entries other_role_db)" "re_lesson_id other_role_entry = 1"
    by (simp_all add: other_role_db_def other_role_entry_def)
  have role: "re_role other_role_entry \<noteq> ''teishu''" "re_role other_role_entry \<noteq> ''kyaku''"
    by (simp_all add: other_role_entry_def)
  have it: "ex_item_host \<in> set (lesson_items other_role_db)"
    "i_lesson_id ex_item_host = 1 \<and> i_role_entry_id ex_item_host = Some (re_id other_role_entry)"
    by (simp_all add: other_role_db_def other_role_entry_def ex_item_host_def)
  have tabs: "teishu_tab other_role_detail = []" "kyaku_tab other_role_detail = []"
    "re_role other_role_entry = ''hanto''"
    by (simp_all add: other_role_detail_def other_role_entry_def)
  from other_role_entry_hidden[OF r pk e role,
      of ex_db 1 ex_role_body "fst (create_role_entry ex_db 1 ex_role_body)"
        "snd (create_role_entry ex_db 1 ex_role_body)"] it
  have "item_payload_of ex_item_host \<notin> set (detail_items other_role_detail)"
    by blast
  with r it tabs show ?thesis by simp
qed

subsection \<open>C6: a role entry that is not one of the lesson is a 400, and nothing is stored\<close>

text \<open>
  C6. An Add Item request for an existing owned lesson whose role_entry_id is supplied
  but resolves to no role entry of that lesson fails with the 400 error \<open>Invalid
  role_entry_id for this lesson\<close>, and the store is returned unchanged. It is not the
  error of a missing lesson, which is the 404 \<open>Lesson not found\<close>.
\<close>

theorem add_item_invalid_role_entry:
  assumes valid: "ItemCreate_valid body"
    and lesson: "\<exists>l\<in>set (lessons d). l_id l = lid \<and> l_user_id l = 1"
    and rid: "ic_role_entry_id body = Some rid"
    and missing: "\<not> (\<exists>e\<in>set (role_entries d). re_id e = rid \<and> re_lesson_id e = lid)"
  shows "add_item_to_lesson d lid body
           = (d, Inl (HTTPException 400 ''Invalid role_entry_id for this lesson''))
    \<and> (\<forall>lid'. \<not> (\<exists>l\<in>set (lessons d). l_id l = lid' \<and> l_user_id l = 1) \<longrightarrow>
          add_item_to_lesson d lid' body = (d, Inl (HTTPException 404 ''Lesson not found'')))"
proof -
  from lesson obtain l where l: "select_lesson d lid = Some l"
    using select_lesson_Some_iff[of d lid] by blast
  from missing have "select_role_entry d rid lid = None"
    using select_role_entry_None[of d rid lid] by blast
  with rid have "resolve_section d lid body = Inl (HTTPException 400 ''Invalid role_entry_id for this lesson'')"
    by (simp add: resolve_section_def)
  with valid l have bad: "add_item_to_lesson d lid body
      = (d, Inl (HTTPException 400 ''Invalid role_entry_id for this lesson''))"
    by (simp add: add_item_to_lesson_def Let_def)
  have nf: "add_item_to_lesson d lid' body = (d, Inl (HTTPException 404 ''Lesson not found''))"
    if "\<not> (\<exists>l\<in>set (lessons d). l_id l = lid' \<and> l_user_id l = 1)" for lid'
  proof -
    from that have "select_lesson d lid' = None"
      using select_lesson_None[of d lid'] by blast
    with valid show ?thesis by (simp add: add_item_to_lesson_def)
  qed
  from bad nf show ?thesis by blast
qed

theorem add_item_invalid_role_entry_witness:
  "add_item_to_lesson ex_db 1 ex_bad_body
     = (ex_db, Inl (HTTPException 400 ''Invalid role_entry_id for this lesson''))
   \<and> add_item_to_lesson ex_db 7 ex_bad_body = (ex_db, Inl (HTTPException 404 ''Lesson not found''))"
proof -
  have valid: "ItemCreate_valid ex_bad_body"
    by code_simp
  have lesson: "\<exists>l\<in>set (lessons ex_db). l_id l = 1 \<and> l_user_id l = 1"
    by code_simp
  have rid: "ic_role_entry_id ex_bad_body = Some 9999"
    by (simp add: ex_bad_body_def)
  have missing: "\<not> (\<exists>e\<in>set (role_entries ex_db). re_id e = 9999 \<and> re_lesson_id e = 1)"
    by code_simp
  have no7: "\<not> (\<exists>l\<in>set (lessons ex_db). l_id l = 7 \<and> l_user_id l = 1)"
    by code_simp
  from add_item_invalid_role_entry[OF valid lesson rid missing] no7 show ?thesis
    by blast
qed

subsection \<open>C5: the section of a stored item follows the role of its role entry\<close>



subsection \<open>C4: the search text of a stored item\<close>

text \<open>
  C4. For every Add Item request that succeeds, the search_text of the stored and
  returned row is the concatenation, joined by single spaces, of the non-empty values
  among, in this order: the inferred section, the procedure name of the referenced role
  entry (empty when there is no role entry or no name), the item type, the title, the
  mei, the maker, the note and the practice name of the lesson. Empty values are left
  out: when no value holds a space itself, the pieces of the search text between spaces
  are exactly the non-empty values, so there is no empty piece and no doubled space.
\<close>

theorem add_item_search_text:
  assumes ok: "add_item_to_lesson d lid body = (d', Inr ret)"
  shows "\<exists>it. ret = Some it \<and> lesson_items d' = lesson_items d @ [it]
    \<and> i_search_text it = join '' '' (filter (\<lambda>p. p \<noteq> []) (search_text_fields d lid body it))
    \<and> ((\<forall>p\<in>set (search_text_fields d lid body it). CHR '' '' \<notin> set p) \<longrightarrow>
          split_space (i_search_text it) = filter (\<lambda>p. p \<noteq> []) (search_text_fields d lid body it))"
proof -
  from ok obtain l sec temae where valid: "ItemCreate_valid body"
    and l: "select_lesson d lid = Some l"
    and rs: "resolve_section d lid body = Inr (sec, temae)"
    by (rule add_item_Inr)
  let ?st = "build_search_text sec temae body (str_or (l_practice_name l) [])"
  let ?it = "new_item_row d lid body sec ?st"
  from add_item_success[OF valid l rs] ok
  have d': "d' = insert_item d lid body sec ?st" and ret: "ret = Some ?it"
    by simp_all
  from resolve_section_Inr[OF valid rs]
  have temae: "temae = entry_temae_name d lid body" and sec: "sec \<noteq> []" by simp_all
  have pn: "lesson_practice_name d lid = opt_str (l_practice_name l)"
    by (simp add: lesson_practice_name_def l)
  have fields: "search_text_fields d lid body ?it =
      [sec, temae, ic_item_type body, opt_str (ic_title body), opt_str (ic_mei body),
       opt_str (ic_maker body), opt_str (ic_note body), opt_str (l_practice_name l)]"
    by (simp add: search_text_fields_def new_item_row_def temae[symmetric] pn)
  have st: "i_search_text ?it = join '' '' (filter (\<lambda>p. p \<noteq> []) (search_text_fields d lid body ?it))"
    unfolding fields by (simp add: new_item_row_def build_search_text_def Let_def str_or_empty)
  have ne: "filter (\<lambda>p. p \<noteq> []) (search_text_fields d lid body ?it) \<noteq> []"
    unfolding fields using sec by simp
  have sp: "split_space (i_search_text ?it) = filter (\<lambda>p. p \<noteq> []) (search_text_fields d lid body ?it)"
    if "\<forall>p\<in>set (search_text_fields d lid body ?it). CHR '' '' \<notin> set p"
  proof -
    from that have "\<forall>p\<in>set (filter (\<lambda>p. p \<noteq> []) (search_text_fields d lid body ?it)). CHR '' '' \<notin> set p"
      by simp
    from split_space_join[OF ne this] show ?thesis by (simp only: st)
  qed
  have "lesson_items d' = lesson_items d @ [?it]"
    by (simp add: d' insert_item_def)
  with ret st sp show ?thesis by blast
qed

theorem add_item_search_text_witness:
  "add_item_to_lesson ex_db 2 ex_room_body
     = (ex_db\<lparr> lesson_items := lesson_items ex_db @ [ex_new_plain_item] \<rparr>, Inr (Some ex_new_plain_item))
   \<and> search_text_fields ex_db 2 ex_room_body ex_new_plain_item
       = [''chashitsu'', [], ''kama'', [], [], ''Jomi'', [], []]
   \<and> i_search_text ex_new_plain_item = join '' '' [''chashitsu'', ''kama'', ''Jomi'']
   \<and> split_space (i_search_text ex_new_plain_item) = [''chashitsu'', ''kama'', ''Jomi'']"
proof -
  have ok: "add_item_to_lesson ex_db 2 ex_room_body
     = (ex_db\<lparr> lesson_items := lesson_items ex_db @ [ex_new_plain_item] \<rparr>, Inr (Some ex_new_plain_item))"
    by code_simp
  have fields: "search_text_fields ex_db 2 ex_room_body ex_new_plain_item
       = [''chashitsu'', [], ''kama'', [], [], ''Jomi'', [], []]"
    by code_simp
  have nosp: "\<forall>p\<in>set (search_text_fields ex_db 2 ex_room_body ex_new_plain_item). CHR '' '' \<notin> set p"
    unfolding fields by simp
  from add_item_search_text[OF ok] nosp
  have "i_search_text ex_new_plain_item
          = join '' '' (filter (\<lambda>p. p \<noteq> []) (search_text_fields ex_db 2 ex_room_body ex_new_plain_item))"
    and "split_space (i_search_text ex_new_plain_item)
          = filter (\<lambda>p. p \<noteq> []) (search_text_fields ex_db 2 ex_room_body ex_new_plain_item)"
    by auto
  then show ?thesis using ok fields by simp
qed

subsection \<open>C2: an absent search criterion excludes no row\<close>

text \<open>
  C2. For every search request and each optional criterion (free-text query, year,
  practice name, item type, section), the rows that match the predicate with the
  criterion absent include the rows that match with it present. An absent criterion
  adds no condition: the predicate then does not depend on the column that criterion
  reads, and with every criterion absent it is the ownership test alone. This holds for
  any \<^verbatim>\<open>LIKE\<close> operator.
\<close>

theorem search_absent_criterion_passes:
  "set (search_matching like d year pn it s (q_like_of query))
      \<subseteq> set (search_matching like d year pn it s (q_like_of None))
   \<and> set (search_matching like d year pn it s ql) \<subseteq> set (search_matching like d None pn it s ql)
   \<and> set (search_matching like d year pn it s ql) \<subseteq> set (search_matching like d year None it s ql)
   \<and> set (search_matching like d year pn it s ql) \<subseteq> set (search_matching like d year pn None s ql)
   \<and> set (search_matching like d year pn it s ql) \<subseteq> set (search_matching like d year pn it None ql)
   \<and> search_where like None pn it s ql (l\<lparr> l_practiced_on := x1 \<rparr>, i) = search_where like None pn it s ql (l, i)
   \<and> search_where like year None it s ql (l\<lparr> l_practice_name := x2 \<rparr>, i) = search_where like year None it s ql (l, i)
   \<and> search_where like year pn None s ql (l, i\<lparr> i_item_type := x3 \<rparr>) = search_where like year pn None s ql (l, i)
   \<and> search_where like year pn it None ql (l, i\<lparr> i_section := x4 \<rparr>) = search_where like year pn it None ql (l, i)
   \<and> search_where like year pn it s None (l, i\<lparr> i_search_text := x5 \<rparr>) = search_where like year pn it s None (l, i)
   \<and> search_where like None None None None None (l, i) = (l_user_id l = 1)"
proof -
  have mono: "set (search_matching like d y1 p1 t1 s1 q1) \<subseteq> set (search_matching like d y2 p2 t2 s2 q2)"
    if "\<And>row. search_where like y1 p1 t1 s1 q1 row \<Longrightarrow> search_where like y2 p2 t2 s2 q2 row"
    for y1 p1 t1 s1 q1 y2 p2 t2 s2 q2
    using that by (auto simp: set_search_matching)
  have q: "set (search_matching like d year pn it s (q_like_of query))
      \<subseteq> set (search_matching like d year pn it s (q_like_of None))"
    by (rule mono) (auto simp: search_where_def q_like_of_None)
  have y: "set (search_matching like d year pn it s ql) \<subseteq> set (search_matching like d None pn it s ql)"
    by (rule mono) (auto simp: search_where_def)
  have p: "set (search_matching like d year pn it s ql) \<subseteq> set (search_matching like d year None it s ql)"
    by (rule mono) (auto simp: search_where_def)
  have t: "set (search_matching like d year pn it s ql) \<subseteq> set (search_matching like d year pn None s ql)"
    by (rule mono) (auto simp: search_where_def)
  have sc: "set (search_matching like d year pn it s ql) \<subseteq> set (search_matching like d year pn it None ql)"
    by (rule mono) (auto simp: search_where_def)
  have c1: "search_where like None pn it s ql (l\<lparr> l_practiced_on := x1 \<rparr>, i) = search_where like None pn it s ql (l, i)"
    by (simp add: search_where_def)
  have c2: "search_where like year None it s ql (l\<lparr> l_practice_name := x2 \<rparr>, i) = search_where like year None it s ql (l, i)"
    by (simp add: search_where_def)
  have c3: "search_where like year pn None s ql (l, i\<lparr> i_item_type := x3 \<rparr>) = search_where like year pn None s ql (l, i)"
    by (simp add: search_where_def)
  have c4: "search_where like year pn it None ql (l, i\<lparr> i_section := x4 \<rparr>) = search_where like year pn it None ql (l, i)"
    by (simp add: search_where_def)
  have c5: "search_where like year pn it s None (l, i\<lparr> i_search_text := x5 \<rparr>) = search_where like year pn it s None (l, i)"
    by (simp add: search_where_def)
  have c6: "search_where like None None None None None (l, i) = (l_user_id l = 1)"
    by (simp add: search_where_def)
  from q y p t sc c1 c2 c3 c4 c5 c6 show ?thesis by (intro conjI)
qed

theorem search_absent_criterion_passes_witness:
  "set (search_matching sql_like ex_db None None (Some ''chawan'') None None)
      \<subseteq> set (search_matching sql_like ex_db None None None None None)
   \<and> length (search_matching sql_like ex_db None None (Some ''chawan'') None None) = 1
   \<and> length (search_matching sql_like ex_db None None None None None) = 3"
proof -
  have "length (search_matching sql_like ex_db None None (Some ''chawan'') None None) = 1"
    by code_simp
  moreover have "length (search_matching sql_like ex_db None None None None None) = 3"
    by code_simp
  ultimately show ?thesis
    using search_absent_criterion_passes[of sql_like ex_db None None "Some ''chawan''" None None None]
    by simp
qed

subsection \<open>C3: a blank query is no query\<close>

text \<open>
  C3. For every search request, a free-text query that is empty or made of whitespace
  only gives the same result as the request without the query: the query is normalised
  to absent before the predicate is built, so the two responses are equal but for the
  echo of the query among the filters, and their result rows are the same.
\<close>

theorem search_items_blank_query:
  assumes blank: "\<forall>c\<in>set q. isspace c"
  shows "q_like_of (Some q) = q_like_of None
    \<and> search_items like d (Some q) year practice_name item_type section lim off
      = map_sum id (\<lambda>r. r\<lparr> r_filters := (r_filters r)\<lparr> f_query := Some q \<rparr> \<rparr>)
          (search_items like d None year practice_name item_type section lim off)
    \<and> map_sum id r_results (search_items like d (Some q) year practice_name item_type section lim off)
      = map_sum id r_results (search_items like d None year practice_name item_type section lim off)"
proof -
  have ql: "q_like_of (Some q) = q_like_of None"
    using q_like_of_blank[OF blank] by (simp add: q_like_of_None)
  have resp: "search_items like d (Some q) year practice_name item_type section lim off
      = map_sum id (\<lambda>r. r\<lparr> r_filters := (r_filters r)\<lparr> f_query := Some q \<rparr> \<rparr>)
          (search_items like d None year practice_name item_type section lim off)"
    by (simp add: search_items_def ql Let_def)
  have "map_sum id r_results (search_items like d (Some q) year practice_name item_type section lim off)
      = map_sum id r_results (search_items like d None year practice_name item_type section lim off)"
    by (simp add: search_items_def ql Let_def)
  with ql resp show ?thesis by blast
qed

theorem search_items_blank_query_witness:
  "q_like_of (Some [CHR '' '', CHR 0x09, CHR '' '']) = None
   \<and> map_sum id r_results
         (search_items sql_like ex_db (Some [CHR '' '', CHR 0x09, CHR '' '']) None None None None 50 0)
     = map_sum id r_results (search_items sql_like ex_db None None None None None 50 0)
   \<and> map_sum id r_count (search_items sql_like ex_db None None None None None 50 0) = Inr 3"
proof -
  have blank: "\<forall>c\<in>set [CHR '' '', CHR 0x09, CHR '' '']. isspace c"
    by (simp add: isspace_def)
  note same = search_items_blank_query[OF blank, of sql_like ex_db None None None None 50 0]
  have none: "q_like_of None = None"
    by code_simp
  from same have "q_like_of (Some [CHR '' '', CHR 0x09, CHR '' '']) = q_like_of None"
    by (rule conjunct1)
  with none have a: "q_like_of (Some [CHR '' '', CHR 0x09, CHR '' '']) = None"
    by simp
  from same have b: "map_sum id r_results
         (search_items sql_like ex_db (Some [CHR '' '', CHR 0x09, CHR '' '']) None None None None 50 0)
     = map_sum id r_results (search_items sql_like ex_db None None None None None 50 0)"
    by (rule conjunct2[THEN conjunct2])
  have c: "map_sum id r_count (search_items sql_like ex_db None None None None None 50 0) = Inr 3"
    by code_simp
  from a b c show ?thesis by (intro conjI)
qed

subsection \<open>C9: the count of a search response is the size of the page\<close>

text \<open>
  C9. For every search request (limit between 1 and 200, offset at least 0) the handler
  returns a response whose count is the number of result rows of that response, after
  limit and offset are applied: it is at most the limit, and it is the smaller of the
  limit and the number of matching rows left after the offset, not the number of all
  matching rows.
\<close>

theorem search_items_count:
  assumes lim: "1 \<le> lim" "lim \<le> 200" and off: "0 \<le> off"
  shows "\<exists>r. search_items like d query year practice_name item_type section lim off = Inr r
    \<and> r_count r = length (r_results r)
    \<and> int (r_count r) \<le> lim
    \<and> r_count r = min (nat lim)
        (length (search_matching like d year practice_name item_type section (q_like_of query)) - nat off)"
proof -
  let ?rows = "limit_offset lim off
      (search_matching like d year practice_name item_type section (q_like_of query))"
  let ?r = "\<lparr> r_count = length (map search_result_of ?rows), r_limit = lim, r_offset = off,
      r_filters = \<lparr> f_query = query, f_year = year, f_practice_name = practice_name,
                    f_item_type = item_type, f_section = section \<rparr>,
      r_results = map search_result_of ?rows \<rparr>"
  from lim off have "search_items like d query year practice_name item_type section lim off = Inr ?r"
    by (simp add: search_items_def Let_def)
  moreover have "r_count ?r = length (r_results ?r)" by simp
  moreover have len: "r_count ?r = min (nat lim)
        (length (search_matching like d year practice_name item_type section (q_like_of query)) - nat off)"
    by (simp add: limit_offset_def min.commute)
  moreover from len lim have "int (r_count ?r) \<le> lim" by linarith
  ultimately show ?thesis by blast
qed

theorem search_items_count_witness:
  "map_sum id r_count (search_items sql_like ex_db None None None None None 2 0) = Inr 2
   \<and> length (search_matching sql_like ex_db None None None None (q_like_of None)) = 3"
proof -
  have total: "length (search_matching sql_like ex_db None None None None (q_like_of None)) = 3"
    by code_simp
  from search_items_count[of 2 0 sql_like ex_db None None None None None]
  obtain r where "search_items sql_like ex_db None None None None None 2 0 = Inr r"
    and "r_count r = min (nat 2)
        (length (search_matching sql_like ex_db None None None None (q_like_of None)) - nat 0)"
    by auto
  with total show ?thesis by simp
qed

subsection \<open>C8: the list of lessons\<close>

text \<open>
  C8. List Lessons returns the caller's lessons ordered by practice date descending,
  then lesson identifier descending, capped at 200 rows: the output is, row by row, the
  summary of the first 200 rows of an arrangement of the caller's lessons in that order.
  In each summary, teishu_temae_name (kyaku_temae_name) is the procedure name of the
  most recent host (guest) entry of the lesson that has a procedure name, or absent
  when the lesson has no such entry.
\<close>

theorem list_lessons_ordered:
  "length (list_lessons d) \<le> 200
   \<and> (\<exists>rows. mset rows = mset (filter (\<lambda>l. l_user_id l = 1) (lessons d))
         \<and> sorted (rev (map (\<lambda>l. (date_key (l_practiced_on l), l_id l)) rows))
         \<and> list_all2 (summary_of d) (take 200 rows) (list_lessons d))"
proof -
  let ?k = "\<lambda>l. (date_key (l_practiced_on l), l_id l)"
  let ?rows = "order_by_desc ?k (filter (\<lambda>l. l_user_id l = 1) (lessons d))"
  have len: "length (list_lessons d) \<le> 200"
    by (simp add: list_lessons_def list_lessons_rows_def)
  have perm: "mset ?rows = mset (filter (\<lambda>l. l_user_id l = 1) (lessons d))"
    by (simp add: order_by_desc_def)
  have srt: "sorted (rev (map ?k ?rows))"
    by (simp add: order_by_desc_def rev_map)
  have "list_all2 (summary_of d) (take 200 ?rows) (list_lessons d)"
    unfolding list_lessons_def list_lessons_rows_def list_all2_map2
    by (rule list_all2_same[THEN iffD2]) (simp add: summary_of_def temae_subquery_most_recent)
  with len perm srt show ?thesis by blast
qed

theorem list_lessons_ordered_witness:
  "list_lessons ex_list_db = ex_summaries
   \<and> length (list_lessons ex_list_db) \<le> 200
   \<and> map ls_id (list_lessons ex_list_db) = [2, 1]
   \<and> map ls_teishu_temae_name (list_lessons ex_list_db) = [None, Some ''koicha'']
   \<and> map ls_kyaku_temae_name (list_lessons ex_list_db) = [None, None]
   \<and> most_recent_temae ex_list_db 1 ''teishu'' (Some ''koicha'')
   \<and> most_recent_temae ex_list_db 1 ''kyaku'' None"
proof -
  have out: "list_lessons ex_list_db = ex_summaries"
    by code_simp
  from list_lessons_ordered[of ex_list_db] have "length (list_lessons ex_list_db) \<le> 200"
    by (rule conjunct1)
  moreover have "most_recent_temae ex_list_db 1 ''teishu'' (Some ''koicha'')"
    by code_simp
  moreover have "most_recent_temae ex_list_db 1 ''kyaku'' None"
    by code_simp
  ultimately show ?thesis using out
    by (simp add: ex_summaries_def)
qed

end
